theory Spec2Isabelle
  imports Complex_Main "HOL-Library.Sublist"
begin

section \<open>Capital ledger (hft\_engine/core/account\_state.py)\<close>

text \<open>
  Python's \<open>Decimal\<close> amounts are modelled as exact rationals (\<open>rat\<close>): every sum,
  difference and product of cent-quantised decimals that the ledger computes is exact
  in Python as well. Only \<open>Decimal\<close> division rounds (to 28 significant digits); it
  occurs in the average cost of a position, which is modelled by exact division.
\<close>

datatype Exchange = KALSHI | IBKR

datatype py_error = DivisionByZero | InvalidOperation

record Position =
  pos_symbol :: string
  pos_side :: string
  pos_quantity :: int
  avg_cost :: rat

definition pos_total_cost :: "Position \<Rightarrow> rat" where
  "pos_total_cost p = avg_cost p * of_int (pos_quantity p)"

record AccountState =
  exchange :: Exchange
  cash_available :: rat
  cash_reserved :: rat
  positions :: "string \<rightharpoonup> Position"

definition cash_total :: "AccountState \<Rightarrow> rat" where
  "cash_total a = cash_available a + cash_reserved a"

definition can_afford :: "AccountState \<Rightarrow> rat \<Rightarrow> bool" where
  "can_afford a amount \<longleftrightarrow> cash_available a \<ge> amount"

text \<open>\<open>reserve\<close> returns the boolean of the source together with the updated account.\<close>

definition reserve :: "AccountState \<Rightarrow> rat \<Rightarrow> bool \<times> AccountState" where
  "reserve a amount =
     (if \<not> can_afford a amount then (False, a)
      else (True, a\<lparr>cash_available := cash_available a - amount,
                     cash_reserved := cash_reserved a + amount\<rparr>))"

definition release :: "AccountState \<Rightarrow> rat \<Rightarrow> AccountState" where
  "release a amount =
     a\<lparr>cash_reserved := cash_reserved a - amount,
       cash_available := cash_available a + amount\<rparr>"

definition confirm_spend :: "AccountState \<Rightarrow> rat \<Rightarrow> AccountState" where
  "confirm_spend a amount = a\<lparr>cash_reserved := cash_reserved a - amount\<rparr>"

text \<open>
  Division of a \<open>Decimal\<close> by zero raises: \<open>InvalidOperation\<close> for \<open>0 / 0\<close>,
  \<open>DivisionByZero\<close> otherwise.
\<close>

definition decimal_div :: "rat \<Rightarrow> int \<Rightarrow> py_error + rat" where
  "decimal_div x n =
     (if n = 0 then (if x = 0 then Inl InvalidOperation else Inl DivisionByZero)
      else Inr (x / of_int n))"

definition position_key :: "string \<Rightarrow> string \<Rightarrow> string" where
  "position_key smb sd = smb @ ''_'' @ sd"

text \<open>
  \<open>add_position\<close> returns the exception it raised, if any, and the account as the
  call leaves it. On an existing position the source stores the new quantity before it
  divides, so a division error leaves the quantity updated and the average cost as it was.
\<close>

definition add_position ::
  "AccountState \<Rightarrow> string \<Rightarrow> string \<Rightarrow> int \<Rightarrow> rat \<Rightarrow> py_error option \<times> AccountState" where
  "add_position a smb sd qty cost =
     (let key = position_key smb sd in
      case positions a key of
        Some pos \<Rightarrow>
          (let total_qty = pos_quantity pos + qty;
               total_cst = pos_total_cost pos + cost;
               pos1 = pos\<lparr>pos_quantity := total_qty\<rparr>
           in case decimal_div total_cst total_qty of
                Inl e \<Rightarrow> (Some e, a\<lparr>positions := (positions a)(key \<mapsto> pos1)\<rparr>)
              | Inr c \<Rightarrow> (None, a\<lparr>positions := (positions a)(key \<mapsto> pos1\<lparr>avg_cost := c\<rparr>)\<rparr>))
      | None \<Rightarrow>
          (case decimal_div cost qty of
             Inl e \<Rightarrow> (Some e, a)
           | Inr c \<Rightarrow>
               (None, a\<lparr>positions := (positions a)(key \<mapsto>
                  \<lparr>pos_symbol = smb, pos_side = sd, pos_quantity = qty, avg_cost = c\<rparr>)\<rparr>)))"

definition get_position_quantity :: "AccountState \<Rightarrow> string \<Rightarrow> string \<Rightarrow> int" where
  "get_position_quantity a smb sd =
     (case positions a (position_key smb sd) of Some pos \<Rightarrow> pos_quantity pos | None \<Rightarrow> 0)"

text \<open>A call of one of the four mutating operations, and a sequence of such calls.\<close>

datatype ledger_op =
    Reserve rat
  | Release rat
  | Confirm_spend rat
  | Add_position string string int rat

fun apply_op :: "AccountState \<Rightarrow> ledger_op \<Rightarrow> AccountState" where
  "apply_op a (Reserve x) = snd (reserve a x)"
| "apply_op a (Release x) = release a x"
| "apply_op a (Confirm_spend x) = confirm_spend a x"
| "apply_op a (Add_position smb sd q c) = snd (add_position a smb sd q c)"

fun is_confirm_spend :: "ledger_op \<Rightarrow> bool" where
  "is_confirm_spend (Confirm_spend x) = True"
| "is_confirm_spend _ = False"

fun run_ops :: "AccountState \<Rightarrow> ledger_op list \<Rightarrow> AccountState" where
  "run_ops a [] = a"
| "run_ops a (x # xs) = run_ops (apply_op a x) xs"

definition acct0 :: AccountState where
  "acct0 = \<lparr>exchange = KALSHI, cash_available = 10, cash_reserved = 0, positions = Map.empty\<rparr>"

record CapitalManager =
  kalshi :: AccountState
  ibkr :: AccountState
  max_capital_per_market :: rat
  max_contracts_per_event :: int

section \<open>Fee model (hft\_engine/core/fee\_model.py)\<close>

text \<open>
  \<open>Decimal.quantize(Decimal("0.01"), rounding=ROUND_UP)\<close> rounds away from zero to a
  multiple of one cent.
\<close>

definition quantize_cents_round_up :: "rat \<Rightarrow> rat" where
  "quantize_cents_round_up x =
     (if 0 \<le> x then of_int \<lceil>x * 100\<rceil> / 100 else of_int \<lfloor>x * 100\<rfloor> / 100)"

record KalshiFeeSchedule =
  rate :: rat

definition taker_fee :: "KalshiFeeSchedule \<Rightarrow> rat \<Rightarrow> int \<Rightarrow> rat" where
  "taker_fee fs price quantity =
     (let p = price;
          one_minus_p = 1 - price;
          raw_fee = rate fs * of_int quantity * p * one_minus_p
      in quantize_cents_round_up raw_fee)"

definition maker_fee :: "KalshiFeeSchedule \<Rightarrow> rat \<Rightarrow> int \<Rightarrow> rat" where
  "maker_fee fs price quantity = taker_fee fs price quantity"

record IBKRFeeSchedule =
  forecastex_fee :: rat

definition fee :: "IBKRFeeSchedule \<Rightarrow> int \<Rightarrow> rat" where
  "fee fs contracts = forecastex_fee fs * of_int contracts"

definition KALSHI_FEES :: KalshiFeeSchedule where
  "KALSHI_FEES = \<lparr>rate = 7 / 100\<rparr>"

definition IBKR_FEES :: IBKRFeeSchedule where
  "IBKR_FEES = \<lparr>forecastex_fee = 1 / 100\<rparr>"

section \<open>Ticks and the arbitrage detector (normalized\_tick.py, arbitrage.py)\<close>

record NormalizedTick =
  tick_exchange :: Exchange
  symbol :: string
  timestamp_exchange :: int
  timestamp_local :: int
  yes_ask :: rat
  no_ask :: rat
  yes_ask_size :: int
  no_ask_size :: int
  tick_last :: "rat option"
  tick_last_size :: "int option"

text \<open>The check of \<open>__post_init__\<close>: constructing a tick outside it raises \<open>ValueError\<close>.\<close>

definition tick_post_init_ok :: "NormalizedTick \<Rightarrow> bool" where
  "tick_post_init_ok t \<longleftrightarrow>
     (0 \<le> yes_ask t \<and> yes_ask t \<le> 1) \<and> (0 \<le> no_ask t \<and> no_ask t \<le> 1)"

datatype Side = BUY_YES_KALSHI_NO_IBKR | BUY_NO_KALSHI_YES_IBKR

record ArbitrageOpportunity =
  opp_symbol :: string
  side :: Side
  kalshi_side :: string
  kalshi_price :: rat
  ibkr_side :: string
  ibkr_price :: rat
  total_cost :: rat
  gross_profit :: rat
  kalshi_fee :: rat
  ibkr_fee :: rat
  total_fees :: rat
  opp_slippage_buffer :: rat
  net_profit :: rat
  timestamp_ns :: int
  opp_quantity :: int

record ArbitrageDetector =
  kalshi_fees :: KalshiFeeSchedule
  ibkr_fees :: IBKRFeeSchedule
  slippage_buffer :: rat
  min_profit :: rat

text \<open>The detector built with the constructor's default arguments.\<close>

definition default_detector :: ArbitrageDetector where
  "default_detector =
     \<lparr>kalshi_fees = KALSHI_FEES, ibkr_fees = IBKR_FEES, slippage_buffer = 1 / 100,
      min_profit = 0\<rparr>"

definition check_opportunity ::
  "ArbitrageDetector \<Rightarrow> rat \<Rightarrow> string \<Rightarrow> rat \<Rightarrow> string \<Rightarrow> Side \<Rightarrow> string \<Rightarrow> int \<Rightarrow> int
     \<Rightarrow> ArbitrageOpportunity option" where
  "check_opportunity d k_price k_side i_price i_side sd smb timestamp quantity =
     (let total = (k_price + i_price) * of_int quantity in
      if k_price + i_price \<ge> 1 then None
      else
        let gross = (1 - k_price - i_price) * of_int quantity;
            k_fee = taker_fee (kalshi_fees d) k_price quantity;
            i_fee = fee (ibkr_fees d) quantity;
            fees = k_fee + i_fee;
            net = gross - fees - slippage_buffer d * of_int quantity
        in if net < min_profit d then None
           else Some \<lparr>opp_symbol = smb, side = sd, kalshi_side = k_side, kalshi_price = k_price,
                       ibkr_side = i_side, ibkr_price = i_price, total_cost = total,
                       gross_profit = gross, kalshi_fee = k_fee, ibkr_fee = i_fee,
                       total_fees = fees,
                       opp_slippage_buffer = slippage_buffer d * of_int quantity,
                       net_profit = net, timestamp_ns = timestamp, opp_quantity = 1\<rparr>)"

text \<open>The two pairings that \<open>detect\<close> evaluates, at the default quantity 1.\<close>

definition pairing1 ::
  "ArbitrageDetector \<Rightarrow> NormalizedTick \<Rightarrow> NormalizedTick \<Rightarrow> ArbitrageOpportunity option" where
  "pairing1 d kalshi_tick ibkr_tick =
     check_opportunity d (yes_ask kalshi_tick) ''YES'' (no_ask ibkr_tick) ''NO''
       BUY_YES_KALSHI_NO_IBKR (symbol kalshi_tick)
       (max (timestamp_local kalshi_tick) (timestamp_local ibkr_tick)) 1"

definition pairing2 ::
  "ArbitrageDetector \<Rightarrow> NormalizedTick \<Rightarrow> NormalizedTick \<Rightarrow> ArbitrageOpportunity option" where
  "pairing2 d kalshi_tick ibkr_tick =
     check_opportunity d (no_ask kalshi_tick) ''NO'' (yes_ask ibkr_tick) ''YES''
       BUY_NO_KALSHI_YES_IBKR (symbol kalshi_tick)
       (max (timestamp_local kalshi_tick) (timestamp_local ibkr_tick)) 1"

definition detect ::
  "ArbitrageDetector \<Rightarrow> NormalizedTick \<Rightarrow> NormalizedTick \<Rightarrow> ArbitrageOpportunity option" where
  "detect d kalshi_tick ibkr_tick =
     (if symbol kalshi_tick \<noteq> symbol ibkr_tick then None
      else
        case (pairing1 d kalshi_tick ibkr_tick, pairing2 d kalshi_tick ibkr_tick) of
          (Some opp1, Some opp2) \<Rightarrow>
            Some (if net_profit opp1 > net_profit opp2 then opp1 else opp2)
        | (Some opp1, None) \<Rightarrow> Some opp1
        | (None, opp2) \<Rightarrow> opp2)"

definition mk_tick :: "Exchange \<Rightarrow> string \<Rightarrow> rat \<Rightarrow> rat \<Rightarrow> NormalizedTick" where
  "mk_tick ex smb ya na =
     \<lparr>tick_exchange = ex, symbol = smb, timestamp_exchange = 1, timestamp_local = 1,
      yes_ask = ya, no_ask = na, yes_ask_size = 10, no_ask_size = 10,
      tick_last = None, tick_last_size = None\<rparr>"

text \<open>Two ticks whose pairings have the same net profit.\<close>

definition tie_kalshi :: NormalizedTick where
  "tie_kalshi = mk_tick KALSHI ''EVT'' (40 / 100) (40 / 100)"

definition tie_ibkr :: NormalizedTick where
  "tie_ibkr = mk_tick IBKR ''EVT'' (43 / 100) (43 / 100)"

section \<open>Bounded event queue (core/event\_bus.py)\<close>

text \<open>
  The queue is modelled for calls that run one after another. \<open>queue\<close> is the content of
  the underlying \<open>asyncio.Queue\<close>, oldest item first, each item with its enqueue time.
  A call that would wait (a \<open>put\<close> on a full queue under \<open>BLOCK\<close>, a \<open>get\<close> on an empty
  queue) either ends by its timeout, or stays suspended and leaves the state as it is;
  which of the two happens is an argument of the call. A suspended \<open>put\<close> that a later
  \<open>get\<close> wakes up inserts its item and counts it as a \<open>put\<close> made after that \<open>get\<close>
  does. The overflow callback is a predicate telling for which items it returns normally
  (it raises on the others). With calls that do not interleave, \<open>put_nowait\<close> cannot
  fail right after \<open>full\<close> returned false, so the retry of \<open>put\<close> in that handler is never
  taken. \<open>reset_stats\<close> is not part of the model.
\<close>

datatype BackpressurePolicy = BLOCK | DROP_OLDEST | DROP_NEWEST | RAISE

record 'a BoundedEventQueue =
  queue :: "('a \<times> int) list"
  max_size :: int
  policy :: BackpressurePolicy
  overflow_callback :: "('a \<Rightarrow> bool) option"
  total_enqueued :: int
  total_dequeued :: int
  total_dropped :: int
  wait_times :: "int list"
  max_wait_time_ns :: int

definition new_queue ::
  "int \<Rightarrow> BackpressurePolicy \<Rightarrow> ('a \<Rightarrow> bool) option \<Rightarrow> 'a BoundedEventQueue" where
  "new_queue m pol cb =
     \<lparr>queue = [], max_size = m, policy = pol, overflow_callback = cb,
      total_enqueued = 0, total_dequeued = 0, total_dropped = 0,
      wait_times = [], max_wait_time_ns = 0\<rparr>"

definition qsize :: "'a BoundedEventQueue \<Rightarrow> int" where
  "qsize q = int (length (queue q))"

text \<open>\<open>asyncio.Queue.full\<close>: a queue with \<open>maxsize \<le> 0\<close> is never full.\<close>

definition full :: "'a BoundedEventQueue \<Rightarrow> bool" where
  "full q \<longleftrightarrow> (if max_size q \<le> 0 then False else qsize q \<ge> max_size q)"

definition empty :: "'a BoundedEventQueue \<Rightarrow> bool" where
  "empty q \<longleftrightarrow> queue q = []"

definition callback_returns :: "'a BoundedEventQueue \<Rightarrow> 'a \<Rightarrow> bool" where
  "callback_returns q item = (case overflow_callback q of None \<Rightarrow> True | Some cb \<Rightarrow> cb item)"

datatype put_result =
    Returned bool
  | Raised_QueueFull
  | Raised_by_callback
  | Put_suspended

definition put_nowait_raw :: "'a BoundedEventQueue \<Rightarrow> 'a \<Rightarrow> int \<Rightarrow> 'a BoundedEventQueue" where
  "put_nowait_raw q item enqueue_time = q\<lparr>queue := queue q @ [(item, enqueue_time)]\<rparr>"

text \<open>
  The two steps of a \<open>put\<close> on a full queue under \<open>DROP_OLDEST\<close>. The first removes the
  oldest item, counts it as dropped and hands it to the overflow callback; the boolean tells
  whether the callback returned. The source awaits the callback, so calls of other tasks
  can run between the two steps. The second tries \<open>put_nowait\<close>: a queue that is full
  again counts the new item as dropped and returns \<open>False\<close>.
\<close>

definition drop_oldest_evict :: "'a BoundedEventQueue \<Rightarrow> bool \<times> 'a BoundedEventQueue" where
  "drop_oldest_evict q =
     (case queue q of
        [] \<Rightarrow> (True, q)
      | dropped # rest \<Rightarrow>
          (callback_returns q (fst dropped),
           q\<lparr>queue := rest, total_dropped := total_dropped q + 1\<rparr>))"

definition drop_oldest_insert ::
  "'a BoundedEventQueue \<Rightarrow> 'a \<Rightarrow> int \<Rightarrow> put_result \<times> 'a BoundedEventQueue" where
  "drop_oldest_insert q item enqueue_time =
     (if full q then (Returned False, q\<lparr>total_dropped := total_dropped q + 1\<rparr>)
      else (Returned True,
            (put_nowait_raw q item enqueue_time)\<lparr>total_enqueued := total_enqueued q + 1\<rparr>))"

definition put ::
  "'a BoundedEventQueue \<Rightarrow> 'a \<Rightarrow> int \<Rightarrow> bool \<Rightarrow> put_result \<times> 'a BoundedEventQueue" where
  "put q item enqueue_time timeout_expires =
     (if full q then
        (case policy q of
           BLOCK \<Rightarrow>
             if timeout_expires
             then (Returned False, q\<lparr>total_dropped := total_dropped q + 1\<rparr>)
             else (Put_suspended, q)
         | DROP_OLDEST \<Rightarrow>
             let (callback_ok, q1) = drop_oldest_evict q
             in if \<not> callback_ok then (Raised_by_callback, q1)
                else drop_oldest_insert q1 item enqueue_time
         | DROP_NEWEST \<Rightarrow>
             let q1 = q\<lparr>total_dropped := total_dropped q + 1\<rparr> in
             if \<not> callback_returns q item then (Raised_by_callback, q1)
             else (Returned False, q1)
         | RAISE \<Rightarrow> (Raised_QueueFull, q))
      else
        (Returned True,
         (put_nowait_raw q item enqueue_time)\<lparr>total_enqueued := total_enqueued q + 1\<rparr>))"

datatype 'a get_result =
    Got 'a
  | Raised_TimeoutError
  | Raised_QueueEmpty
  | Get_suspended

text \<open>The bookkeeping that \<open>get\<close> and \<open>get_nowait\<close> share once an item is taken.\<close>

definition record_dequeue :: "'a BoundedEventQueue \<Rightarrow> int \<Rightarrow> int \<Rightarrow> 'a BoundedEventQueue" where
  "record_dequeue q enqueue_time now =
     (let wait_time = now - enqueue_time;
          times = wait_times q @ [wait_time];
          mx = (if wait_time > max_wait_time_ns q then wait_time else max_wait_time_ns q);
          times1 = (if length times > 1000 then drop (length times - 1000) times else times)
      in q\<lparr>total_dequeued := total_dequeued q + 1, wait_times := times1,
            max_wait_time_ns := mx\<rparr>)"

definition get ::
  "'a BoundedEventQueue \<Rightarrow> int \<Rightarrow> bool \<Rightarrow> 'a get_result \<times> 'a BoundedEventQueue" where
  "get q now timeout_expires =
     (case queue q of
        [] \<Rightarrow> if timeout_expires then (Raised_TimeoutError, q) else (Get_suspended, q)
      | (item, enqueue_time) # rest \<Rightarrow>
          (Got item, record_dequeue (q\<lparr>queue := rest\<rparr>) enqueue_time now))"

definition get_nowait :: "'a BoundedEventQueue \<Rightarrow> int \<Rightarrow> 'a get_result \<times> 'a BoundedEventQueue" where
  "get_nowait q now =
     (case queue q of
        [] \<Rightarrow> (Raised_QueueEmpty, q)
      | (item, enqueue_time) # rest \<Rightarrow>
          (Got item, record_dequeue (q\<lparr>queue := rest\<rparr>) enqueue_time now))"

datatype 'a queue_call =
    Put 'a int bool
  | Get int bool
  | Get_nowait int

fun queue_step :: "'a BoundedEventQueue \<Rightarrow> 'a queue_call \<Rightarrow> 'a BoundedEventQueue" where
  "queue_step q (Put item t expires) = snd (put q item t expires)"
| "queue_step q (Get now expires) = snd (get q now expires)"
| "queue_step q (Get_nowait now) = snd (get_nowait q now)"

fun queue_run :: "'a BoundedEventQueue \<Rightarrow> 'a queue_call list \<Rightarrow> 'a BoundedEventQueue" where
  "queue_run q [] = q"
| "queue_run q (c # cs) = queue_run (queue_step q c) cs"

text \<open>
  A \<open>put\<close> has not enqueued its item when it returns \<open>False\<close> or ends with an
  exception of the overflow callback; \<open>rejected_puts\<close> counts the puts of a sequence of
  calls that end so.
\<close>

fun rejected :: "put_result \<Rightarrow> bool" where
  "rejected (Returned b) = (\<not> b)"
| "rejected Raised_by_callback = True"
| "rejected _ = False"

fun rejected_puts :: "'a BoundedEventQueue \<Rightarrow> 'a queue_call list \<Rightarrow> int" where
  "rejected_puts q [] = 0"
| "rejected_puts q (Put item t expires # cs) =
     (if rejected (fst (put q item t expires)) then 1 else 0)
       + rejected_puts (snd (put q item t expires)) cs"
| "rejected_puts q (c # cs) = rejected_puts (queue_step q c) cs"

text \<open>The counter balance of the conservation property.\<close>

definition counter_balance :: "'a BoundedEventQueue \<Rightarrow> int" where
  "counter_balance q = total_enqueued q - total_dequeued q - total_dropped q"

text \<open>
  Two runs: a queue of capacity 1 under \<open>DROP_NEWEST\<close> that receives two items, and the
  burst of five items into a queue of capacity 3.
\<close>

definition reject_calls :: "int queue_call list" where
  "reject_calls = [Put 1 100 False, Put 2 101 False]"

definition drop_newest_queue :: "int BoundedEventQueue" where
  "drop_newest_queue = queue_run (new_queue 1 DROP_NEWEST None) reject_calls"

definition burst_calls :: "int queue_call list" where
  "burst_calls = [Put 1 100 False, Put 2 101 False, Put 3 102 False, Put 4 103 False, Put 5 104 False]"

text \<open>
  Two producers on a queue of capacity 1 with an overflow callback, under \<open>DROP_OLDEST\<close>:
  the queue holds item 1; a put of item 2 evicts it and awaits the callback; meanwhile a put
  of item 3 finds the queue not full and enqueues; then the first put resumes.
\<close>

definition overlapped_queue :: "int BoundedEventQueue" where
  "overlapped_queue =
     (let q0 = queue_run (new_queue 1 DROP_OLDEST (Some (\<lambda>x. True))) [Put 1 100 False];
          q1 = snd (drop_oldest_evict q0);
          q2 = snd (put q1 3 102 False)
      in snd (drop_oldest_insert q2 2 101))"

section \<open>Gateway orders (gateways/kalshi\_rest.py, gateways/ibkr\_client.py)\<close>

datatype OrderSide = YES | NO

fun side_value :: "OrderSide \<Rightarrow> string" where
  "side_value YES = ''yes''"
| "side_value NO = ''no''"

datatype OrderStatus =
  RESTING | PENDING | OPEN | FILLED | EXECUTED | CANCELED | CANCELLED | EXPIRED

fun status_value :: "OrderStatus \<Rightarrow> string" where
  "status_value RESTING = ''resting''"
| "status_value PENDING = ''pending''"
| "status_value OPEN = ''open''"
| "status_value FILLED = ''filled''"
| "status_value EXECUTED = ''executed''"
| "status_value CANCELED = ''canceled''"
| "status_value CANCELLED = ''cancelled''"
| "status_value EXPIRED = ''expired''"

text \<open>
  The fields of \<open>KalshiOrder\<close> that the executor reads. \<open>from_response\<close> builds the price
  as \<open>Decimal(price_cents) / 100\<close>; the record keeps the cents.
\<close>

record KalshiOrder =
  order_id :: string
  status :: OrderStatus
  initial_count :: int
  remaining_count :: int
  fill_count :: int
  price_cents :: int

definition price :: "KalshiOrder \<Rightarrow> rat" where
  "price ord = of_int (price_cents ord) / 100"

definition is_filled :: "KalshiOrder \<Rightarrow> bool" where
  "is_filled ord \<longleftrightarrow> remaining_count ord = 0 \<and> fill_count ord > 0"

definition is_open :: "KalshiOrder \<Rightarrow> bool" where
  "is_open ord \<longleftrightarrow> status ord = RESTING \<or> remaining_count ord > 0"

datatype IBKROrderStatus = IB_PENDING | IB_SUBMITTED | IB_FILLED | IB_CANCELLED | IB_INACTIVE

fun ib_status_value :: "IBKROrderStatus \<Rightarrow> string" where
  "ib_status_value IB_PENDING = ''PendingSubmit''"
| "ib_status_value IB_SUBMITTED = ''Submitted''"
| "ib_status_value IB_FILLED = ''Filled''"
| "ib_status_value IB_CANCELLED = ''Cancelled''"
| "ib_status_value IB_INACTIVE = ''Inactive''"

record IBKROrder =
  ib_order_id :: int
  ib_status :: IBKROrderStatus
  filled_quantity :: int
  avg_fill_price :: "rat option"

definition ib_is_filled :: "IBKROrder \<Rightarrow> bool" where
  "ib_is_filled ord \<longleftrightarrow> ib_status ord = IB_FILLED"

definition ib_is_open :: "IBKROrder \<Rightarrow> bool" where
  "ib_is_open ord \<longleftrightarrow> ib_status ord = IB_PENDING \<or> ib_status ord = IB_SUBMITTED"

text \<open>
  The two venues are external: each call the executor makes is a request, and the venue's
  answer is an exception (its message) or an order. The answer may depend on how many
  gateway calls were made before, so that polling the same order twice can give two
  answers. \<open>kalshi_polls\<close> is the number of times the poll loop of \<open>_execute_kalshi\<close>
  finds the clock before its deadline. The executor's calls are recorded with their
  answers, in order.
\<close>

datatype kalshi_request =
    K_place string OrderSide int int
  | K_get string
  | K_cancel string

datatype ibkr_request =
    I_place int int rat
  | I_wait int
  | I_cancel int

datatype gateway_call =
    Kalshi_call kalshi_request "string + KalshiOrder"
  | IBKR_call ibkr_request "string + IBKROrder"

record gateways =
  kalshi_reply :: "nat \<Rightarrow> kalshi_request \<Rightarrow> string + KalshiOrder"
  ibkr_reply :: "nat \<Rightarrow> ibkr_request \<Rightarrow> string + IBKROrder"
  kalshi_polls :: nat

definition call_kalshi ::
  "gateways \<Rightarrow> gateway_call list \<Rightarrow> kalshi_request
     \<Rightarrow> (string + KalshiOrder) \<times> gateway_call list" where
  "call_kalshi gw tr req =
     (let rep = kalshi_reply gw (length tr) req in (rep, tr @ [Kalshi_call req rep]))"

definition call_ibkr ::
  "gateways \<Rightarrow> gateway_call list \<Rightarrow> ibkr_request
     \<Rightarrow> (string + IBKROrder) \<times> gateway_call list" where
  "call_ibkr gw tr req =
     (let rep = ibkr_reply gw (length tr) req in (rep, tr @ [IBKR_call req rep]))"

section \<open>Order executor (hft\_engine/core/executor.py)\<close>

record ContractMapping =
  unified_symbol :: string
  description :: string
  kalshi_ticker :: string
  ibkr_yes_conid :: int
  ibkr_no_conid :: int

type_synonym SymbolConfig = "string \<rightharpoonup> ContractMapping"

text \<open>
  The \<open>error\<close> field of a result. Messages that the source formats from a \<open>Decimal\<close> or
  an exception carry that value instead of its rendering.
\<close>

datatype exec_error =
    Unknown_symbol string
  | Insufficient_Kalshi_capital rat
  | Insufficient_IBKR_capital rat
  | Leg_error string
  | Execution_error py_error

text \<open>\<open>ExecutionResult\<close> without its wall-clock \<open>timestamp\<close>.\<close>

record ExecutionResult =
  success :: bool
  res_symbol :: string
  res_quantity :: int
  kalshi_filled :: bool
  kalshi_order_id :: "string option"
  res_kalshi_side :: string
  kalshi_limit_price :: rat
  kalshi_fill_price :: "rat option"
  kalshi_fill_quantity :: int
  ibkr_filled :: bool
  ibkr_order_id :: "int option"
  res_ibkr_side :: string
  ibkr_con_id :: int
  ibkr_limit_price :: rat
  ibkr_fill_price :: "rat option"
  ibkr_fill_quantity :: int
  res_total_cost :: rat
  expected_payout :: rat
  actual_fees :: rat
  res_net_profit :: rat
  error :: "exec_error option"
  rolled_back :: bool
  rollback_details :: "string option"

text \<open>The dictionary a leg returns: a missing key is \<open>None\<close>.\<close>

record 'id leg_result =
  lr_order_id :: "'id option"
  lr_filled :: bool
  lr_fill_quantity :: "int option"
  lr_fill_price :: "rat option"
  lr_error :: "string option"

text \<open>Python's \<open>int(x)\<close> on a \<open>Decimal\<close> truncates toward zero.\<close>

definition py_int :: "rat \<Rightarrow> int" where
  "py_int x = (if 0 \<le> x then \<lfloor>x\<rfloor> else \<lceil>x\<rceil>)"

text \<open>
  The poll loop of \<open>_execute_kalshi\<close>, with the number of iterations the deadline still
  allows; when none is left the order is cancelled.
\<close>

fun kalshi_poll ::
  "gateways \<Rightarrow> nat \<Rightarrow> gateway_call list \<Rightarrow> KalshiOrder
     \<Rightarrow> string leg_result \<times> gateway_call list" where
  "kalshi_poll gw 0 tr ord =
     (case call_kalshi gw tr (K_cancel (order_id ord)) of
        (Inl e, tr1) \<Rightarrow>
          (\<lparr>lr_order_id = None, lr_filled = False, lr_fill_quantity = None,
            lr_fill_price = None, lr_error = Some e\<rparr>, tr1)
      | (Inr _, tr1) \<Rightarrow>
          (\<lparr>lr_order_id = Some (order_id ord), lr_filled = False,
            lr_fill_quantity = Some (fill_count ord), lr_fill_price = None,
            lr_error = Some ''Timeout waiting for fill''\<rparr>, tr1))"
| "kalshi_poll gw (Suc n) tr ord =
     (case call_kalshi gw tr (K_get (order_id ord)) of
        (Inl e, tr1) \<Rightarrow>
          (\<lparr>lr_order_id = None, lr_filled = False, lr_fill_quantity = None,
            lr_fill_price = None, lr_error = Some e\<rparr>, tr1)
      | (Inr ord1, tr1) \<Rightarrow>
          if is_filled ord1 then
            (\<lparr>lr_order_id = Some (order_id ord1), lr_filled = True,
              lr_fill_quantity = Some (fill_count ord1), lr_fill_price = Some (price ord1),
              lr_error = None\<rparr>, tr1)
          else if \<not> is_open ord1 then
            (\<lparr>lr_order_id = Some (order_id ord1), lr_filled = False,
              lr_fill_quantity = None, lr_fill_price = None,
              lr_error = Some (''Order '' @ status_value (status ord1))\<rparr>, tr1)
          else kalshi_poll gw n tr1 ord1)"

definition execute_kalshi ::
  "gateways \<Rightarrow> gateway_call list \<Rightarrow> string \<Rightarrow> string \<Rightarrow> int \<Rightarrow> rat
     \<Rightarrow> string leg_result \<times> gateway_call list" where
  "execute_kalshi gw tr ticker sd quantity prc =
     (let k_side = (if sd = ''YES'' then YES else NO);
          cents = py_int (prc * 100)
      in case call_kalshi gw tr (K_place ticker k_side quantity cents) of
           (Inl e, tr1) \<Rightarrow>
             (\<lparr>lr_order_id = None, lr_filled = False, lr_fill_quantity = None,
               lr_fill_price = None, lr_error = Some e\<rparr>, tr1)
         | (Inr ord, tr1) \<Rightarrow> kalshi_poll gw (kalshi_polls gw) tr1 ord)"

definition ibkr_failure :: "string \<Rightarrow> int leg_result" where
  "ibkr_failure e =
     \<lparr>lr_order_id = None, lr_filled = False, lr_fill_quantity = None, lr_fill_price = None,
      lr_error = Some e\<rparr>"

definition ibkr_not_filled :: "IBKROrder \<Rightarrow> int leg_result" where
  "ibkr_not_filled ord =
     \<lparr>lr_order_id = Some (ib_order_id ord), lr_filled = False,
      lr_fill_quantity = Some (filled_quantity ord), lr_fill_price = None,
      lr_error = Some (''Order '' @ ib_status_value (ib_status ord))\<rparr>"

definition execute_ibkr ::
  "gateways \<Rightarrow> gateway_call list \<Rightarrow> int \<Rightarrow> int \<Rightarrow> rat
     \<Rightarrow> int leg_result \<times> gateway_call list" where
  "execute_ibkr gw tr con_id quantity prc =
     (case call_ibkr gw tr (I_place con_id quantity prc) of
        (Inl e, tr1) \<Rightarrow> (ibkr_failure e, tr1)
      | (Inr ord0, tr1) \<Rightarrow>
          (case call_ibkr gw tr1 (I_wait (ib_order_id ord0)) of
             (Inl e, tr2) \<Rightarrow> (ibkr_failure e, tr2)
           | (Inr ord, tr2) \<Rightarrow>
               if ib_is_filled ord then
                 (\<lparr>lr_order_id = Some (ib_order_id ord), lr_filled = True,
                   lr_fill_quantity = Some (filled_quantity ord),
                   lr_fill_price = avg_fill_price ord, lr_error = None\<rparr>, tr2)
               else if ib_is_open ord then
                 (case call_ibkr gw tr2 (I_cancel (ib_order_id ord)) of
                    (Inl e, tr3) \<Rightarrow> (ibkr_failure e, tr3)
                  | (Inr _, tr3) \<Rightarrow> (ibkr_not_filled ord, tr3))
               else (ibkr_not_filled ord, tr2)))"

text \<open>Decimal digits of a natural number, and Python's \<open>str\<close> of an \<open>int\<close>.\<close>

fun str_nat :: "nat \<Rightarrow> string" where
  "str_nat n =
     (if n < 10 then [''0123456789'' ! n]
      else str_nat (n div 10) @ [''0123456789'' ! (n mod 10)])"

definition str_int :: "int \<Rightarrow> string" where
  "str_int i = (if i < 0 then ''-'' @ str_nat (nat (- i)) else str_nat (nat i))"

text \<open>
  \<open>str(Decimal(c) / 100)\<close> for an integer number of cents: the exact quotient with no
  trailing zero in its fraction.
\<close>

definition str_price :: "int \<Rightarrow> string" where
  "str_price c =
     (let a = nat \<bar>c\<bar>;
          whole = str_nat (a div 100);
          frac = a mod 100;
          body = (if frac = 0 then whole
                  else if frac mod 10 = 0 then whole @ ''.'' @ str_nat (frac div 10)
                  else whole @ ''.'' @ str_nat (frac div 10) @ str_nat (frac mod 10))
      in if c < 0 then ''-'' @ body else body)"

definition manual_marker :: string where
  "manual_marker = '' - MANUAL INTERVENTION REQUIRED''"

record rollback_result =
  rb_success :: bool
  rb_details :: string

definition rollback_kalshi ::
  "gateways \<Rightarrow> gateway_call list \<Rightarrow> string \<Rightarrow> string \<Rightarrow> int
     \<Rightarrow> rollback_result \<times> gateway_call list" where
  "rollback_kalshi gw tr ticker sd quantity =
     (let opposite_side = (if sd = ''YES'' then NO else YES) in
      case call_kalshi gw tr (K_place ticker opposite_side quantity 99) of
        (Inl e, tr1) \<Rightarrow>
          (\<lparr>rb_success = False, rb_details = ''Rollback failed: '' @ e @ manual_marker\<rparr>, tr1)
      | (Inr ord0, tr1) \<Rightarrow>
          (case call_kalshi gw tr1 (K_get (order_id ord0)) of
             (Inl e, tr2) \<Rightarrow>
               (\<lparr>rb_success = False,
                 rb_details = ''Rollback failed: '' @ e @ manual_marker\<rparr>, tr2)
           | (Inr ord, tr2) \<Rightarrow>
               if is_filled ord then
                 (\<lparr>rb_success = True,
                   rb_details = ''Hedged with '' @ str_int quantity @ '' '' @
                     side_value opposite_side @ '' @ $'' @ str_price (price_cents ord)\<rparr>, tr2)
               else
                 (\<lparr>rb_success = False,
                   rb_details = ''Hedge order '' @ status_value (status ord) @ manual_marker\<rparr>,
                  tr2)))"

definition initial_result :: "ArbitrageOpportunity \<Rightarrow> int \<Rightarrow> ExecutionResult" where
  "initial_result opp quantity =
     \<lparr>success = False, res_symbol = opp_symbol opp, res_quantity = quantity,
      kalshi_filled = False, kalshi_order_id = None, res_kalshi_side = kalshi_side opp,
      kalshi_limit_price = kalshi_price opp, kalshi_fill_price = None,
      kalshi_fill_quantity = 0, ibkr_filled = False, ibkr_order_id = None,
      res_ibkr_side = ibkr_side opp, ibkr_con_id = 0, ibkr_limit_price = ibkr_price opp,
      ibkr_fill_price = None, ibkr_fill_quantity = 0, res_total_cost = 0,
      expected_payout = of_int quantity, actual_fees = 0, res_net_profit = 0,
      error = None, rolled_back = False, rollback_details = None\<rparr>"

text \<open>
  \<open>fill_price * fill_quantity if fill_price else cost\<close>: a missing and a zero fill price
  are both false in Python.
\<close>

definition actual_cost :: "rat option \<Rightarrow> int \<Rightarrow> rat \<Rightarrow> rat" where
  "actual_cost fill_price fill_quantity cost =
     (case fill_price of
        None \<Rightarrow> cost
      | Some p \<Rightarrow> if p = 0 then cost else p * of_int fill_quantity)"

text \<open>
  Step 4 of \<open>execute\<close>, after both legs filled. An exception of \<open>add_position\<close> reaches
  the handler of \<open>execute\<close>, which releases both reservations again. The legs and the
  rollback catch every exception of their gateway calls themselves, so this is the only
  way into that handler; task cancellation is not modelled.
\<close>

definition commit_success ::
  "CapitalManager \<Rightarrow> ArbitrageOpportunity \<Rightarrow> ExecutionResult \<Rightarrow> rat \<Rightarrow> rat
     \<Rightarrow> ExecutionResult \<times> CapitalManager" where
  "commit_success cm opp res kalshi_cost ibkr_cost =
     (let k2 = confirm_spend (kalshi cm) kalshi_cost;
          i2 = confirm_spend (ibkr cm) ibkr_cost;
          actual_kalshi_cost =
            actual_cost (kalshi_fill_price res) (kalshi_fill_quantity res) kalshi_cost;
          actual_ibkr_cost =
            actual_cost (ibkr_fill_price res) (ibkr_fill_quantity res) ibkr_cost
      in case add_position k2 (opp_symbol opp) (kalshi_side opp) (kalshi_fill_quantity res)
                actual_kalshi_cost of
           (Some e, k3) \<Rightarrow>
             (res\<lparr>error := Some (Execution_error e)\<rparr>,
              cm\<lparr>kalshi := release k3 kalshi_cost, ibkr := release i2 ibkr_cost\<rparr>)
         | (None, k3) \<Rightarrow>
             (case add_position i2 (opp_symbol opp) (ibkr_side opp) (ibkr_fill_quantity res)
                     actual_ibkr_cost of
                (Some e, i3) \<Rightarrow>
                  (res\<lparr>error := Some (Execution_error e)\<rparr>,
                   cm\<lparr>kalshi := release k3 kalshi_cost, ibkr := release i3 ibkr_cost\<rparr>)
              | (None, i3) \<Rightarrow>
                  let fee_price =
                        (case kalshi_fill_price res of
                           None \<Rightarrow> kalshi_price opp
                         | Some p \<Rightarrow> if p = 0 then kalshi_price opp else p);
                      k_fee = taker_fee KALSHI_FEES fee_price (kalshi_fill_quantity res);
                      i_fee = fee IBKR_FEES (ibkr_fill_quantity res);
                      fees = k_fee + i_fee;
                      cost = actual_kalshi_cost + actual_ibkr_cost
                  in (res\<lparr>actual_fees := fees, res_total_cost := cost,
                           res_net_profit := expected_payout res - cost - fees,
                           success := True\<rparr>,
                      cm\<lparr>kalshi := k3, ibkr := i3\<rparr>)))"

definition execute ::
  "gateways \<Rightarrow> SymbolConfig \<Rightarrow> CapitalManager \<Rightarrow> ArbitrageOpportunity \<Rightarrow> int
     \<Rightarrow> ExecutionResult \<times> CapitalManager \<times> gateway_call list" where
  "execute gw symbols cm opp quantity =
     (let result = initial_result opp quantity in
      case symbols (opp_symbol opp) of
        None \<Rightarrow> (result\<lparr>error := Some (Unknown_symbol (opp_symbol opp))\<rparr>, cm, [])
      | Some mapping \<Rightarrow>
          let result1 = result\<lparr>ibkr_con_id :=
                (if ibkr_side opp = ''YES'' then ibkr_yes_conid mapping
                 else ibkr_no_conid mapping)\<rparr>;
              kalshi_cost = kalshi_price opp * of_int quantity;
              ibkr_cost = ibkr_price opp * of_int quantity;
              result2 = result1\<lparr>res_total_cost := kalshi_cost + ibkr_cost\<rparr>
          in
          case reserve (kalshi cm) kalshi_cost of
            (False, k1) \<Rightarrow>
              (result2\<lparr>error := Some (Insufficient_Kalshi_capital kalshi_cost)\<rparr>, cm, [])
          | (True, k1) \<Rightarrow>
              (case reserve (ibkr cm) ibkr_cost of
                 (False, i1) \<Rightarrow>
                   (result2\<lparr>error := Some (Insufficient_IBKR_capital ibkr_cost)\<rparr>,
                    cm\<lparr>kalshi := release k1 kalshi_cost\<rparr>, [])
               | (True, i1) \<Rightarrow>
                   let cm1 = cm\<lparr>kalshi := k1, ibkr := i1\<rparr>;
                       (kalshi_result, tr1) =
                         execute_kalshi gw [] (kalshi_ticker mapping) (kalshi_side opp)
                           quantity (kalshi_price opp);
                       result3 = result2\<lparr>
                         kalshi_order_id := lr_order_id kalshi_result,
                         kalshi_filled := lr_filled kalshi_result,
                         kalshi_fill_quantity :=
                           (case lr_fill_quantity kalshi_result of None \<Rightarrow> 0 | Some n \<Rightarrow> n),
                         kalshi_fill_price := lr_fill_price kalshi_result\<rparr>
                   in
                   if \<not> kalshi_filled result3 then
                     (result3\<lparr>error := Some (Leg_error
                         (case lr_error kalshi_result of
                            None \<Rightarrow> ''Kalshi order not filled'' | Some e \<Rightarrow> e))\<rparr>,
                      cm1\<lparr>kalshi := release k1 kalshi_cost, ibkr := release i1 ibkr_cost\<rparr>,
                      tr1)
                   else
                     let (ibkr_result, tr2) =
                           execute_ibkr gw tr1 (ibkr_con_id result3) quantity (ibkr_price opp);
                         result4 = result3\<lparr>
                           ibkr_order_id := lr_order_id ibkr_result,
                           ibkr_filled := lr_filled ibkr_result,
                           ibkr_fill_quantity :=
                             (case lr_fill_quantity ibkr_result of None \<Rightarrow> 0 | Some n \<Rightarrow> n),
                           ibkr_fill_price := lr_fill_price ibkr_result\<rparr>
                     in
                     if \<not> ibkr_filled result4 then
                       let cm2 = cm1\<lparr>ibkr := release i1 ibkr_cost\<rparr>;
                           (rollback, tr3) =
                             rollback_kalshi gw tr2 (kalshi_ticker mapping) (kalshi_side opp)
                               (kalshi_fill_quantity result4)
                       in (result4\<lparr>rolled_back := True,
                                   rollback_details := Some (rb_details rollback),
                                   error := Some (Leg_error
                                     (case lr_error ibkr_result of
                                        None \<Rightarrow> ''IBKR order not filled'' | Some e \<Rightarrow> e))\<rparr>,
                           cm2, tr3)
                     else
                       let (result5, cm3) = commit_success cm1 opp result4 kalshi_cost ibkr_cost
                       in (result5, cm3, tr2)))"

text \<open>What the recorded calls show: the orders placed on Kalshi and on IBKR, and whether the
  last call polled a filled Kalshi order (the hedge, when the run ends with a rollback).\<close>

fun kalshi_places :: "gateway_call list \<Rightarrow> kalshi_request list" where
  "kalshi_places [] = []"
| "kalshi_places (Kalshi_call (K_place t s n c) rep # cs) = K_place t s n c # kalshi_places cs"
| "kalshi_places (c # cs) = kalshi_places cs"

fun ibkr_places :: "gateway_call list \<Rightarrow> ibkr_request list" where
  "ibkr_places [] = []"
| "ibkr_places (IBKR_call (I_place c n p) rep # cs) = I_place c n p # ibkr_places cs"
| "ibkr_places (c # cs) = ibkr_places cs"

fun polled_filled :: "gateway_call \<Rightarrow> bool" where
  "polled_filled (Kalshi_call (K_get oid) (Inr ord)) = is_filled ord"
| "polled_filled _ = False"

definition hedge_filled :: "gateway_call list \<Rightarrow> bool" where
  "hedge_filled tr = (case rev tr of [] \<Rightarrow> False | c # cs \<Rightarrow> polled_filled c)"

text \<open>The contract id of the IBKR leg, as \<open>execute\<close> chooses it.\<close>

definition leg_b_con_id :: "ContractMapping \<Rightarrow> ArbitrageOpportunity \<Rightarrow> int" where
  "leg_b_con_id mapping opp =
     (if ibkr_side opp = ''YES'' then ibkr_yes_conid mapping else ibkr_no_conid mapping)"

text \<open>
  A concrete setting: one mapped event, 100 dollars on each venue, and the opportunity
  "buy YES on Kalshi at 0.40, buy NO on IBKR at 0.43".
\<close>

definition evt_mapping :: ContractMapping where
  "evt_mapping =
     \<lparr>unified_symbol = ''EVT'', description = ''event'', kalshi_ticker = ''KX-EVT'',
      ibkr_yes_conid = 2001, ibkr_no_conid = 2002\<rparr>"

definition evt_symbols :: SymbolConfig where
  "evt_symbols = [''EVT'' \<mapsto> evt_mapping]"

definition funded :: CapitalManager where
  "funded =
     \<lparr>kalshi = \<lparr>exchange = KALSHI, cash_available = 100, cash_reserved = 0,
                positions = Map.empty\<rparr>,
      ibkr = \<lparr>exchange = IBKR, cash_available = 100, cash_reserved = 0,
              positions = Map.empty\<rparr>,
      max_capital_per_market = 50, max_contracts_per_event = 100\<rparr>"

definition evt_opp :: ArbitrageOpportunity where
  "evt_opp =
     \<lparr>opp_symbol = ''EVT'', side = BUY_YES_KALSHI_NO_IBKR, kalshi_side = ''YES'',
      kalshi_price = 40 / 100, ibkr_side = ''NO'', ibkr_price = 43 / 100,
      total_cost = 83 / 100, gross_profit = 17 / 100, kalshi_fee = 2 / 100,
      ibkr_fee = 1 / 100, total_fees = 3 / 100, opp_slippage_buffer = 1 / 100,
      net_profit = 13 / 100, timestamp_ns = 1, opp_quantity = 1\<rparr>"

text \<open>
  Kalshi answers every placed order with a resting order, and a poll with an order that
  has nothing remaining and \<open>filled\<close> contracts filled, unless it is the hedge (order id
  \<open>H1\<close>, placed at 99 cents), which it reports as still resting.
\<close>

definition kalshi_venue :: "int \<Rightarrow> nat \<Rightarrow> kalshi_request \<Rightarrow> string + KalshiOrder" where
  "kalshi_venue filled n req =
     (case req of
        K_place t s q c \<Rightarrow>
          Inr \<lparr>order_id = (if c = 99 then ''H1'' else ''K1''), status = RESTING,
               initial_count = q, remaining_count = q, fill_count = 0, price_cents = c\<rparr>
      | K_get oid \<Rightarrow>
          if oid = ''H1''
          then Inr \<lparr>order_id = oid, status = RESTING, initial_count = filled,
                    remaining_count = filled, fill_count = 0, price_cents = 99\<rparr>
          else Inr \<lparr>order_id = oid, status = EXECUTED, initial_count = 5,
                    remaining_count = 0, fill_count = filled, price_cents = 40\<rparr>
      | K_cancel oid \<Rightarrow> Inl ''not found'')"

text \<open>IBKR rejecting every order, and IBKR filling every order it is sent in full.\<close>

definition ibkr_rejects :: "nat \<Rightarrow> ibkr_request \<Rightarrow> string + IBKROrder" where
  "ibkr_rejects n req = Inl ''rejected''"

definition ibkr_fills :: "nat \<Rightarrow> ibkr_request \<Rightarrow> string + IBKROrder" where
  "ibkr_fills n req =
     (case req of
        I_place c q p \<Rightarrow>
          Inr \<lparr>ib_order_id = 7, ib_status = IB_SUBMITTED, filled_quantity = 0,
               avg_fill_price = None\<rparr>
      | I_wait oid \<Rightarrow>
          Inr \<lparr>ib_order_id = oid, ib_status = IB_FILLED, filled_quantity = 5,
               avg_fill_price = Some (43 / 100)\<rparr>
      | I_cancel oid \<Rightarrow> Inl ''not found'')"

definition leg_b_rejected :: gateways where
  "leg_b_rejected =
     \<lparr>kalshi_reply = kalshi_venue 5, ibkr_reply = ibkr_rejects, kalshi_polls = 20\<rparr>"

definition leg_a_short_fill :: gateways where
  "leg_a_short_fill =
     \<lparr>kalshi_reply = kalshi_venue 3, ibkr_reply = ibkr_fills, kalshi_polls = 20\<rparr>"

text \<open>
  Kalshi as above with the leg filled in full, except that the hedge order is polled as
  cancelled with nothing remaining and 2 of its 5 contracts filled.
\<close>

definition kalshi_hedge_cut :: "nat \<Rightarrow> kalshi_request \<Rightarrow> string + KalshiOrder" where
  "kalshi_hedge_cut n req =
     (case req of
        K_get oid \<Rightarrow>
          if oid = ''H1''
          then Inr \<lparr>order_id = oid, status = CANCELED, initial_count = 5,
                    remaining_count = 0, fill_count = 2, price_cents = 99\<rparr>
          else kalshi_venue 5 n req
      | _ \<Rightarrow> kalshi_venue 5 n req)"

definition hedge_cut_short :: gateways where
  "hedge_cut_short =
     \<lparr>kalshi_reply = kalshi_hedge_cut, ibkr_reply = ibkr_rejects, kalshi_polls = 20\<rparr>"

section \<open>Sizing and validation (CapitalManager, account\_state.py)\<close>

text \<open>
  Division of a \<open>Decimal\<close> by a \<open>Decimal\<close>, raising on a zero divisor. The quotients
  below are truncated by \<open>int\<close> at once, and the 28-digit rounding of the quotient is not
  modelled.
\<close>

definition decimal_quot :: "rat \<Rightarrow> rat \<Rightarrow> py_error + rat" where
  "decimal_quot x y =
     (if y = 0 then (if x = 0 then Inl InvalidOperation else Inl DivisionByZero)
      else Inr (x / y))"

datatype validation_reason =
    OK
  | Exceeds_max_capital rat rat
  | Kalshi_position_limit int int int
  | IBKR_position_limit int int int
  | Insufficient_Kalshi_cash rat rat
  | Insufficient_IBKR_cash rat rat

definition validate_opportunity ::
  "CapitalManager \<Rightarrow> string \<Rightarrow> string \<Rightarrow> rat \<Rightarrow> string \<Rightarrow> rat \<Rightarrow> int
     \<Rightarrow> bool \<times> validation_reason" where
  "validate_opportunity cm smb k_side k_price i_side i_price quantity =
     (let total = (k_price + i_price) * of_int quantity;
          kalshi_cost = k_price * of_int quantity;
          ibkr_cost = i_price * of_int quantity
      in if total > max_capital_per_market cm
         then (False, Exceeds_max_capital total (max_capital_per_market cm))
         else
           let kalshi_pos = get_position_quantity (kalshi cm) smb k_side;
               ibkr_pos = get_position_quantity (ibkr cm) smb i_side
           in if kalshi_pos + quantity > max_contracts_per_event cm
              then (False, Kalshi_position_limit kalshi_pos quantity (max_contracts_per_event cm))
              else if ibkr_pos + quantity > max_contracts_per_event cm
              then (False, IBKR_position_limit ibkr_pos quantity (max_contracts_per_event cm))
              else if \<not> can_afford (kalshi cm) kalshi_cost
              then (False, Insufficient_Kalshi_cash kalshi_cost (cash_available (kalshi cm)))
              else if \<not> can_afford (ibkr cm) ibkr_cost
              then (False, Insufficient_IBKR_cash ibkr_cost (cash_available (ibkr cm)))
              else (True, OK))"

definition calculate_max_quantity ::
  "CapitalManager \<Rightarrow> string \<Rightarrow> string \<Rightarrow> rat \<Rightarrow> string \<Rightarrow> rat \<Rightarrow> py_error + int" where
  "calculate_max_quantity cm smb k_side k_price i_side i_price =
     (let cost_per_pair = k_price + i_price in
      case decimal_quot (max_capital_per_market cm) cost_per_pair of
        Inl e \<Rightarrow> Inl e
      | Inr by_capital \<Rightarrow>
          let max_by_capital = py_int by_capital;
              kalshi_pos = get_position_quantity (kalshi cm) smb k_side;
              ibkr_pos = get_position_quantity (ibkr cm) smb i_side;
              max_by_position =
                min (max_contracts_per_event cm - kalshi_pos)
                    (max_contracts_per_event cm - ibkr_pos)
          in case decimal_quot (cash_available (kalshi cm)) k_price of
               Inl e \<Rightarrow> Inl e
             | Inr by_kalshi \<Rightarrow>
                 (case decimal_quot (cash_available (ibkr cm)) i_price of
                    Inl e \<Rightarrow> Inl e
                  | Inr by_ibkr \<Rightarrow>
                      Inr (max 0 (min (min max_by_capital max_by_position)
                                      (min (py_int by_kalshi) (py_int by_ibkr))))))"

section \<open>Opportunity gate (hft\_engine/monitor/arbitrage\_monitor.py)\<close>

record IBKRPartialTick =
  p_yes_ask :: "rat option"
  p_yes_ask_size :: int
  p_no_ask :: "rat option"
  p_no_ask_size :: int
  p_timestamp_ns :: int

record KalshiTickCache =
  cache_tick :: "NormalizedTick option"
  cache_timestamp_ns :: int

text \<open>
  \<open>is_stale\<close> reads the clock (\<open>time.time_ns()\<close>); the reading is the argument \<open>now\<close>.
  \<open>max_stale_seconds\<close> is a Python number (the default is the integer 5); it is modelled
  as an exact rational.
\<close>

definition partial_is_stale :: "IBKRPartialTick \<Rightarrow> int \<Rightarrow> rat \<Rightarrow> bool" where
  "partial_is_stale p now max_age_seconds =
     (if p_timestamp_ns p = 0 then True
      else let age_ns = now - p_timestamp_ns p
           in of_int age_ns > max_age_seconds * 1000000000)"

definition cache_is_stale :: "KalshiTickCache \<Rightarrow> int \<Rightarrow> rat \<Rightarrow> bool" where
  "cache_is_stale c now max_age_seconds =
     (if cache_tick c = None \<or> cache_timestamp_ns c = 0 then True
      else let age_ns = now - cache_timestamp_ns c
           in of_int age_ns > max_age_seconds * 1000000000)"

record ExecutionConfig =
  mode :: string
  cfg_max_capital_per_market :: rat
  cfg_max_contracts_per_event :: int
  min_net_profit :: rat
  max_stale_seconds :: rat

text \<open>The part of the monitor's state that \<open>_handle_opportunity\<close> reads and writes.\<close>

record ArbitrageMonitor =
  execution_config :: ExecutionConfig
  capital :: CapitalManager
  detector :: ArbitrageDetector
  kalshi_cache :: "string \<rightharpoonup> KalshiTickCache"
  ibkr_partials :: "string \<rightharpoonup> IBKRPartialTick"
  opportunities_detected :: int
  opportunities_valid :: int
  opportunities_stale :: int

definition scale_opportunity ::
  "ArbitrageMonitor \<Rightarrow> ArbitrageOpportunity \<Rightarrow> int \<Rightarrow> ArbitrageOpportunity" where
  "scale_opportunity m opp quantity =
     (let total = (kalshi_price opp + ibkr_price opp) * of_int quantity;
          gross = (1 - kalshi_price opp - ibkr_price opp) * of_int quantity;
          k_fee = taker_fee KALSHI_FEES (kalshi_price opp) quantity;
          i_fee = fee IBKR_FEES quantity;
          fees = k_fee + i_fee;
          slippage = slippage_buffer (detector m) * of_int quantity;
          net = gross - fees - slippage
      in \<lparr>opp_symbol = opp_symbol opp, side = side opp, kalshi_side = kalshi_side opp,
          kalshi_price = kalshi_price opp, ibkr_side = ibkr_side opp,
          ibkr_price = ibkr_price opp, total_cost = total, gross_profit = gross,
          kalshi_fee = k_fee, ibkr_fee = i_fee, total_fees = fees,
          opp_slippage_buffer = slippage, net_profit = net,
          timestamp_ns = timestamp_ns opp, opp_quantity = 1\<rparr>)"

text \<open>
  What \<open>_handle_opportunity\<close> does besides updating the counters: nothing (it returns),
  the creation of an execution task or of a logging task, or an exception of the sizing.
\<close>

datatype gate_action =
    No_task
  | Execute_task ArbitrageOpportunity int
  | Log_task ArbitrageOpportunity
  | Gate_raised py_error

text \<open>\<open>now_k\<close> and \<open>now_i\<close> are the clock readings of the two staleness checks.\<close>

definition handle_opportunity ::
  "ArbitrageMonitor \<Rightarrow> ArbitrageOpportunity \<Rightarrow> int \<Rightarrow> int \<Rightarrow> gate_action \<times> ArbitrageMonitor" where
  "handle_opportunity m opp now_k now_i =
     (let m1 = m\<lparr>opportunities_detected := opportunities_detected m + 1\<rparr>;
          max_stale = max_stale_seconds (execution_config m)
      in
      if (case kalshi_cache m (opp_symbol opp) of
            None \<Rightarrow> True | Some c \<Rightarrow> cache_is_stale c now_k max_stale)
      then (No_task, m1\<lparr>opportunities_stale := opportunities_stale m1 + 1\<rparr>)
      else if (case ibkr_partials m (opp_symbol opp) of
                 None \<Rightarrow> True | Some p \<Rightarrow> partial_is_stale p now_i max_stale)
      then (No_task, m1\<lparr>opportunities_stale := opportunities_stale m1 + 1\<rparr>)
      else
        case calculate_max_quantity (capital m) (opp_symbol opp) (kalshi_side opp)
               (kalshi_price opp) (ibkr_side opp) (ibkr_price opp) of
          Inl e \<Rightarrow> (Gate_raised e, m1)
        | Inr max_qty \<Rightarrow>
            if max_qty \<le> 0 then (No_task, m1)
            else if \<not> fst (validate_opportunity (capital m) (opp_symbol opp) (kalshi_side opp)
                              (kalshi_price opp) (ibkr_side opp) (ibkr_price opp) max_qty)
            then (No_task, m1)
            else
              let scaled_opp = scale_opportunity m opp max_qty in
              if net_profit scaled_opp \<le> 0 then (No_task, m1)
              else
                let m2 = m1\<lparr>opportunities_valid := opportunities_valid m1 + 1\<rparr> in
                if mode (execution_config m) = ''live''
                then (Execute_task scaled_opp max_qty, m2)
                else (Log_task scaled_opp, m2))"

text \<open>
  The setting of scenario S3: the ticks of S1, the Kalshi tick received 10 seconds before
  the check, the IBKR tick 1 second before it, and \<open>max_stale_seconds = 5\<close>.
\<close>

definition stale_monitor :: ArbitrageMonitor where
  "stale_monitor =
     \<lparr>execution_config =
        \<lparr>mode = ''live'', cfg_max_capital_per_market = 50, cfg_max_contracts_per_event = 100,
         min_net_profit = 0, max_stale_seconds = 5\<rparr>,
      capital = funded, detector = default_detector,
      kalshi_cache = [''EVT'' \<mapsto>
        \<lparr>cache_tick = Some (mk_tick KALSHI ''EVT'' (40 / 100) (60 / 100)),
         cache_timestamp_ns = 10000000000\<rparr>],
      ibkr_partials = [''EVT'' \<mapsto>
        \<lparr>p_yes_ask = Some (55 / 100), p_yes_ask_size = 10, p_no_ask = Some (43 / 100),
         p_no_ask_size = 10, p_timestamp_ns = 19000000000\<rparr>],
      opportunities_detected = 0, opportunities_valid = 0, opportunities_stale = 0\<rparr>"

section \<open>Properties of the capital ledger\<close>

lemma add_position_cash:
  "cash_available (snd (add_position a smb sd q c)) = cash_available a \<and>
   cash_reserved (snd (add_position a smb sd q c)) = cash_reserved a"
  by (simp add: add_position_def Let_def split: option.splits sum.splits)

lemma apply_op_total:
  "\<not> is_confirm_spend x \<Longrightarrow> cash_total (apply_op a x) = cash_total a"
  by (cases x) (simp_all add: cash_total_def reserve_def release_def add_position_cash)

lemma run_ops_total:
  "\<forall>x \<in> set xs. \<not> is_confirm_spend x \<Longrightarrow> cash_total (run_ops a xs) = cash_total a"
  by (induction xs arbitrary: a) (simp_all add: apply_op_total)

text \<open>
  C3. For every account and every sequence of \<open>reserve\<close>, \<open>release\<close> and
  \<open>add_position\<close> calls (no \<open>confirm_spend\<close> among them), the sum
  \<open>cash_available + cash_reserved\<close> after the sequence equals its value before.
  \<open>confirm_spend\<close> lowers the sum by exactly its amount, hence strictly for a
  positive amount.
\<close>

theorem ledger_sum_invariant:
  "((\<forall>x \<in> set xs. \<not> is_confirm_spend x) \<longrightarrow> cash_total (run_ops a xs) = cash_total a) \<and>
   cash_total (confirm_spend a amount) = cash_total a - amount \<and>
   (0 < amount \<longrightarrow> cash_total (confirm_spend a amount) < cash_total a)"
  using run_ops_total [of xs a] by (simp add: cash_total_def confirm_spend_def)

theorem ledger_sum_invariant_witness:
  "map is_confirm_spend [Reserve 4, Add_position ''EVT'' ''YES'' 2 1, Release 3, Reserve 20]
     = [False, False, False, False] \<and>
   cash_total (run_ops acct0 [Reserve 4, Add_position ''EVT'' ''YES'' 2 1, Release 3, Reserve 20])
     = cash_total acct0 \<and>
   (0::rat) < 4 \<and> cash_total (confirm_spend acct0 4) < cash_total acct0"
  using ledger_sum_invariant
    [of "[Reserve 4, Add_position ''EVT'' ''YES'' 2 1, Release 3, Reserve 20]" acct0 4]
  by simp


text \<open>
  C4 (as stated) fails: \<open>release\<close> and \<open>confirm_spend\<close> subtract from
  \<open>cash_reserved\<close> without a check, so an amount above the reserved cash leaves it
  negative. From an account with 10 available and nothing reserved, releasing 1 gives a
  reserve of -1.
\<close>

theorem release_negative_reserved_counterexample:
  "0 \<le> cash_available acct0 \<and> 0 \<le> cash_reserved acct0 \<and> (0::rat) \<le> 1 \<and>
   cash_reserved (release acct0 1) = - 1 \<and> cash_reserved (confirm_spend acct0 1) = - 1"
  by (simp add: acct0_def release_def confirm_spend_def)

text \<open>
  C4 (amended). From an account with both cash fields non-negative and a non-negative
  amount: \<open>reserve\<close> and \<open>add_position\<close> keep both fields non-negative; \<open>release\<close>
  and \<open>confirm_spend\<close> keep them non-negative exactly when the amount is at most the
  reserved cash.
\<close>

theorem ledger_nonneg_preserved:
  assumes "0 \<le> cash_available a" and "0 \<le> cash_reserved a" and "0 \<le> amount"
  shows "0 \<le> cash_available (snd (reserve a amount)) \<and>
         0 \<le> cash_reserved (snd (reserve a amount)) \<and>
         0 \<le> cash_available (snd (add_position a smb sd q c)) \<and>
         0 \<le> cash_reserved (snd (add_position a smb sd q c)) \<and>
         ((0 \<le> cash_available (release a amount) \<and> 0 \<le> cash_reserved (release a amount))
            \<longleftrightarrow> amount \<le> cash_reserved a) \<and>
         ((0 \<le> cash_available (confirm_spend a amount) \<and>
           0 \<le> cash_reserved (confirm_spend a amount))
            \<longleftrightarrow> amount \<le> cash_reserved a)"
  using assms
  by (simp add: add_position_cash reserve_def can_afford_def release_def confirm_spend_def)

theorem ledger_nonneg_preserved_witness:
  "0 \<le> cash_available acct0 \<and> 0 \<le> cash_reserved acct0 \<and> (0::rat) \<le> 4 \<and>
   0 \<le> cash_available (snd (reserve acct0 4)) \<and>
   0 \<le> cash_reserved (snd (reserve acct0 4)) \<and>
   0 \<le> cash_reserved (release (snd (reserve acct0 4)) 4) \<and>
   0 \<le> cash_reserved (confirm_spend (snd (reserve acct0 4)) 4)"
proof -
  have h: "0 \<le> cash_available acct0" "0 \<le> cash_reserved acct0" "(0::rat) \<le> 4"
    by (simp_all add: acct0_def)
  have r: "0 \<le> cash_available (snd (reserve acct0 4))"
          "0 \<le> cash_reserved (snd (reserve acct0 4))"
          "4 \<le> cash_reserved (snd (reserve acct0 4))"
    by (simp_all add: acct0_def reserve_def can_afford_def)
  show ?thesis
    using h ledger_nonneg_preserved [OF h, of "''EVT''" "''YES''" 1 1]
          ledger_nonneg_preserved [OF r(1) r(2) h(3), of "''EVT''" "''YES''" 1 1] r(3)
    by simp
qed
section \<open>Properties of the fee model\<close>

lemma quantize_mono:
  assumes "x \<le> y" shows "quantize_cents_round_up x \<le> quantize_cents_round_up y"
proof -
  have fc: "\<lfloor>x * 100\<rfloor> \<le> \<lceil>y * 100\<rceil>"
  proof -
    have "(of_int \<lfloor>x * 100\<rfloor> :: rat) \<le> x * 100" by (rule of_int_floor_le)
    also have "\<dots> \<le> y * 100" using assms by simp
    also have "\<dots> \<le> of_int \<lceil>y * 100\<rceil>" by (rule le_of_int_ceiling)
    finally show ?thesis by simp
  qed
  have cc: "\<lceil>x * 100\<rceil> \<le> \<lceil>y * 100\<rceil>" using assms by (simp add: ceiling_mono)
  have ff: "\<lfloor>x * 100\<rfloor> \<le> \<lfloor>y * 100\<rfloor>" using assms by (simp add: floor_mono)
  show ?thesis
    using assms fc cc ff
    by (auto simp add: quantize_cents_round_up_def divide_right_mono)
qed

lemma price_product_max:
  "(p::rat) * (1 - p) \<le> (50 / 100) * (1 - 50 / 100)"
proof -
  have "0 \<le> (p - 1/2)^2" by simp
  then show ?thesis by (simp add: power2_eq_square algebra_simps)
qed

lemma raw_fee_mono_quantity:
  assumes "0 \<le> r" "0 \<le> (p::rat)" "p \<le> 1"
  shows "r * of_int q * p * (1 - p) \<le> r * of_int (q + 1) * p * (1 - p)"
proof -
  have "0 \<le> r * (p * (1 - p))" using assms by simp
  then show ?thesis by (simp add: algebra_simps)
qed

lemma raw_fee_max_half:
  assumes "0 \<le> (r::rat)" "1 \<le> (q::int)"
  shows "r * of_int q * p * (1 - p) \<le> r * of_int q * (50 / 100) * (1 - 50 / 100)"
proof -
  have "0 \<le> r * of_int q" using assms by simp
  then have "(r * of_int q) * (p * (1 - p)) \<le> (r * of_int q) * ((50 / 100) * (1 - 50 / 100))"
    by (rule mult_left_mono [OF price_product_max])
  then show ?thesis by (simp only: mult.assoc)
qed

lemma quantize_nonneg_bounds:
  assumes "0 \<le> x"
  shows "x \<le> quantize_cents_round_up x \<and> quantize_cents_round_up x < x + 1 / 100 \<and>
         quantize_cents_round_up x * 100 = of_int \<lceil>x * 100\<rceil>"
proof -
  have a: "x * 100 \<le> of_int \<lceil>x * 100\<rceil>" by (rule le_of_int_ceiling)
  have b: "of_int \<lceil>x * 100\<rceil> < x * 100 + 1" using ceiling_correct [of "x * 100"] by simp
  show ?thesis using assms a b by (simp add: quantize_cents_round_up_def field_simps)
qed

text \<open>
  C8. With a non-negative rate (the default is 0.07), for every price of 1 to 99 cents and
  every quantity \<open>q \<ge> 1\<close>: the taker fee is \<open>rate * q * price * (1 - price)\<close> rounded up to
  the next cent (a whole number of cents, at least the raw fee and less than one cent above
  it); it does not decrease from \<open>q\<close> to \<open>q + 1\<close>; and it is at most the fee at price 0.50.
\<close>

theorem taker_fee_round_up_monotone:
  assumes "0 \<le> rate fs" and "1 \<le> c" and "c \<le> 99" and "1 \<le> q"
  shows "taker_fee fs (of_int c / 100) q * 100
           = of_int \<lceil>rate fs * of_int q * (of_int c / 100) * (1 - of_int c / 100) * 100\<rceil> \<and>
         rate fs * of_int q * (of_int c / 100) * (1 - of_int c / 100)
           \<le> taker_fee fs (of_int c / 100) q \<and>
         taker_fee fs (of_int c / 100) q
           < rate fs * of_int q * (of_int c / 100) * (1 - of_int c / 100) + 1 / 100 \<and>
         taker_fee fs (of_int c / 100) q \<le> taker_fee fs (of_int c / 100) (q + 1) \<and>
         taker_fee fs (of_int c / 100) q \<le> taker_fee fs (50 / 100) q"
proof -
  let ?p = "of_int c / 100 :: rat"
  have p0: "0 \<le> ?p" and p1: "?p \<le> 1" using assms by simp_all
  have raw0: "0 \<le> rate fs * of_int q * ?p * (1 - ?p)" using assms p0 p1 by simp
  note qb = quantize_nonneg_bounds [OF raw0]
  have m1: "taker_fee fs ?p q \<le> taker_fee fs ?p (q + 1)"
    unfolding taker_fee_def Let_def
    by (rule quantize_mono [OF raw_fee_mono_quantity [OF assms(1) p0 p1]])
  have m2: "taker_fee fs ?p q \<le> taker_fee fs (50 / 100) q"
    unfolding taker_fee_def Let_def
    by (rule quantize_mono [OF raw_fee_max_half [OF assms(1) assms(4)]])
  show ?thesis using qb m1 m2 by (simp add: taker_fee_def Let_def)
qed

theorem taker_fee_round_up_monotone_witness:
  "0 \<le> rate KALSHI_FEES \<and> (1::int) \<le> 40 \<and> (40::int) \<le> 99 \<and> (1::int) \<le> 3 \<and>
   taker_fee KALSHI_FEES (of_int 40 / 100) 3 = 6 / 100 \<and>
   taker_fee KALSHI_FEES (of_int 40 / 100) 3 \<le> taker_fee KALSHI_FEES (of_int 40 / 100) (3 + 1) \<and>
   taker_fee KALSHI_FEES (of_int 40 / 100) 3 \<le> taker_fee KALSHI_FEES (50 / 100) 3"
proof -
  have r: "0 \<le> rate KALSHI_FEES" by (simp add: KALSHI_FEES_def)
  have v: "taker_fee KALSHI_FEES (of_int 40 / 100) 3 = 6 / 100" by code_simp
  show ?thesis
    using r v taker_fee_round_up_monotone [OF r, of 40 3] by simp
qed

section \<open>Properties of the arbitrage detector\<close>

lemma check_opportunity_Some:
  "check_opportunity d kp ks ip is sd smb ts q = Some opp \<Longrightarrow>
     kalshi_price opp + ibkr_price opp < 1 \<and> side opp = sd \<and>
     kalshi_price opp = kp \<and> ibkr_price opp = ip"
  by (auto simp add: check_opportunity_def Let_def split: if_splits)

lemma check_opportunity_parity:
  "kp + ip \<ge> 1 \<Longrightarrow> check_opportunity d kp ks ip is sd smb ts q = None"
  by (simp add: check_opportunity_def)

lemma detect_cases:
  "detect d k i = Some opp \<Longrightarrow> pairing1 d k i = Some opp \<or> pairing2 d k i = Some opp"
  by (auto simp add: detect_def split: if_splits option.splits)

text \<open>
  C6. A pairing whose two leg prices sum to at least 1.00 produces no opportunity:
  \<open>_check_opportunity\<close> returns \<open>None\<close> for it, so \<open>detect\<close> can only return the other
  pairing; when both pairings have sums of at least 1.00, \<open>detect\<close> returns \<open>None\<close>.
\<close>

theorem parity_no_opportunity:
  "(kp + ip \<ge> 1 \<longrightarrow> check_opportunity d kp ks ip is sd smb ts q = None) \<and>
   (yes_ask k + no_ask i \<ge> 1 \<longrightarrow>
      pairing1 d k i = None \<and> (\<forall>opp. detect d k i = Some opp \<longrightarrow> side opp = BUY_NO_KALSHI_YES_IBKR)) \<and>
   (no_ask k + yes_ask i \<ge> 1 \<longrightarrow>
      pairing2 d k i = None \<and> (\<forall>opp. detect d k i = Some opp \<longrightarrow> side opp = BUY_YES_KALSHI_NO_IBKR)) \<and>
   (yes_ask k + no_ask i \<ge> 1 \<and> no_ask k + yes_ask i \<ge> 1 \<longrightarrow> detect d k i = None)"
proof -
  have p1: "pairing1 d k i = None" if "yes_ask k + no_ask i \<ge> 1"
    using that by (simp add: pairing1_def check_opportunity_parity)
  have p2: "pairing2 d k i = None" if "no_ask k + yes_ask i \<ge> 1"
    using that by (simp add: pairing2_def check_opportunity_parity)
  have s1: "side opp = BUY_YES_KALSHI_NO_IBKR" if "pairing1 d k i = Some opp" for opp
    using that check_opportunity_Some unfolding pairing1_def by blast
  have s2: "side opp = BUY_NO_KALSHI_YES_IBKR" if "pairing2 d k i = Some opp" for opp
    using that check_opportunity_Some unfolding pairing2_def by blast
  have both: "detect d k i = None" if "pairing1 d k i = None" "pairing2 d k i = None"
    using that by (simp add: detect_def)
  show ?thesis
    using p1 p2 s1 s2 both detect_cases [of d k i] check_opportunity_parity
    by (metis option.distinct(1) not_Some_eq)
qed


theorem parity_no_opportunity_witness:
  "yes_ask (mk_tick KALSHI ''EVT'' (52/100) (49/100)) + no_ask (mk_tick IBKR ''EVT'' (52/100) (49/100)) \<ge> 1 \<and>
   no_ask (mk_tick KALSHI ''EVT'' (52/100) (49/100)) + yes_ask (mk_tick IBKR ''EVT'' (52/100) (49/100)) \<ge> 1 \<and>
   detect default_detector (mk_tick KALSHI ''EVT'' (52/100) (49/100)) (mk_tick IBKR ''EVT'' (52/100) (49/100)) = None \<and>
   (52/100 :: rat) + 49/100 \<ge> 1 \<and>
   check_opportunity default_detector (52/100) ''YES'' (49/100) ''NO'' BUY_YES_KALSHI_NO_IBKR ''EVT'' 1 1 = None"
  using parity_no_opportunity [of "52/100" "49/100" default_detector "''YES''" "''NO''"
     BUY_YES_KALSHI_NO_IBKR "''EVT''" 1 1 "mk_tick KALSHI ''EVT'' (52/100) (49/100)"
     "mk_tick IBKR ''EVT'' (52/100) (49/100)"]
  by (simp add: mk_tick_def)



text \<open>
  C7 (as stated) fails on ties: \<open>detect\<close> returns \<open>opp1\<close> only when its net profit is
  strictly larger, so equal net profits give pairing P2 (buy NO on Kalshi, YES on IBKR).
  With Kalshi asks 0.40/0.40 and IBKR asks 0.43/0.43 both pairings net 0.13.
\<close>

theorem detect_tie_counterexample:
  "map_option net_profit (pairing1 default_detector tie_kalshi tie_ibkr) = Some (13 / 100) \<and>
   map_option net_profit (pairing2 default_detector tie_kalshi tie_ibkr) = Some (13 / 100) \<and>
   map_option side (detect default_detector tie_kalshi tie_ibkr) = Some BUY_NO_KALSHI_YES_IBKR"
  by code_simp

text \<open>
  C7 (amended). When both pairings survive the parity, fee and min-profit checks,
  \<open>detect\<close> returns pairing P1 when its net profit is strictly larger, and pairing P2
  otherwise; so on equal net profits it returns P2.
\<close>

theorem detect_returns_larger_net_profit:
  assumes "symbol k = symbol i"
      and "pairing1 d k i = Some opp1" and "pairing2 d k i = Some opp2"
  shows "side opp1 = BUY_YES_KALSHI_NO_IBKR \<and> side opp2 = BUY_NO_KALSHI_YES_IBKR \<and>
         (net_profit opp1 > net_profit opp2 \<longrightarrow> detect d k i = Some opp1) \<and>
         (net_profit opp1 \<le> net_profit opp2 \<longrightarrow> detect d k i = Some opp2)"
proof -
  have "side opp1 = BUY_YES_KALSHI_NO_IBKR"
    using assms(2) check_opportunity_Some unfolding pairing1_def by blast
  moreover have "side opp2 = BUY_NO_KALSHI_YES_IBKR"
    using assms(3) check_opportunity_Some unfolding pairing2_def by blast
  ultimately show ?thesis using assms by (simp add: detect_def)
qed


theorem detect_returns_larger_net_profit_witness:
  "symbol tie_kalshi = symbol tie_ibkr \<and>
   map_option net_profit (pairing1 default_detector tie_kalshi tie_ibkr) = Some (13 / 100) \<and>
   map_option net_profit (pairing2 default_detector tie_kalshi tie_ibkr) = Some (13 / 100) \<and>
   detect default_detector tie_kalshi tie_ibkr = pairing2 default_detector tie_kalshi tie_ibkr"
proof -
  have s: "symbol tie_kalshi = symbol tie_ibkr"
    by (simp add: tie_kalshi_def tie_ibkr_def mk_tick_def)
  have n1: "map_option net_profit (pairing1 default_detector tie_kalshi tie_ibkr) = Some (13 / 100)"
    by code_simp
  have n2: "map_option net_profit (pairing2 default_detector tie_kalshi tie_ibkr) = Some (13 / 100)"
    by code_simp
  from n1 obtain o1 where o1: "pairing1 default_detector tie_kalshi tie_ibkr = Some o1"
    and v1: "net_profit o1 = 13 / 100" by auto
  from n2 obtain o2 where o2: "pairing2 default_detector tie_kalshi tie_ibkr = Some o2"
    and v2: "net_profit o2 = 13 / 100" by auto
  show ?thesis
    using s n1 n2 o2 v1 v2 detect_returns_larger_net_profit [OF s o1 o2] by simp
qed
section \<open>Properties of the bounded event queue\<close>



lemma put_fields:
  "max_size (snd (put q x t e)) = max_size q \<and> policy (snd (put q x t e)) = policy q \<and>
   overflow_callback (snd (put q x t e)) = overflow_callback q"
  by (simp add: put_def drop_oldest_evict_def drop_oldest_insert_def put_nowait_raw_def Let_def split: BackpressurePolicy.splits list.splits prod.splits)

lemma get_fields:
  "max_size (snd (get q n e)) = max_size q \<and> policy (snd (get q n e)) = policy q \<and>
   overflow_callback (snd (get q n e)) = overflow_callback q"
  by (simp add: get_def record_dequeue_def Let_def split: list.splits prod.splits)

lemma get_nowait_fields:
  "max_size (snd (get_nowait q n)) = max_size q \<and> policy (snd (get_nowait q n)) = policy q \<and>
   overflow_callback (snd (get_nowait q n)) = overflow_callback q"
  by (simp add: get_nowait_def record_dequeue_def Let_def split: list.splits prod.splits)

lemma step_fields:
  "max_size (queue_step q c) = max_size q \<and> policy (queue_step q c) = policy q"
  by (cases c) (simp_all add: put_fields get_fields get_nowait_fields)

lemma put_bounded:
  "0 < max_size q \<Longrightarrow> qsize q \<le> max_size q \<Longrightarrow> qsize (snd (put q x t e)) \<le> max_size q"
  by (auto simp add: put_def drop_oldest_evict_def drop_oldest_insert_def put_nowait_raw_def full_def qsize_def Let_def
           split: BackpressurePolicy.splits list.splits prod.splits)

lemma get_bounded: "qsize (snd (get q n e)) \<le> qsize q"
  by (simp add: get_def record_dequeue_def qsize_def Let_def split: list.splits prod.splits)

lemma get_nowait_bounded: "qsize (snd (get_nowait q n)) \<le> qsize q"
  by (simp add: get_nowait_def record_dequeue_def qsize_def Let_def split: list.splits prod.splits)

lemma step_bounded:
  assumes "0 < max_size q" and "qsize q \<le> max_size q"
  shows "qsize (queue_step q c) \<le> max_size q"
proof (cases c)
  case (Put x t e)
  then show ?thesis using put_bounded [OF assms] by simp
next
  case (Get n e)
  have "qsize (snd (get q n e)) \<le> qsize q" by (rule get_bounded)
  then show ?thesis using Get assms(2) by simp
next
  case (Get_nowait n)
  have "qsize (snd (get_nowait q n)) \<le> qsize q" by (rule get_nowait_bounded)
  then show ?thesis using Get_nowait assms(2) by simp
qed

lemma put_balance_evicting:
  "policy q = DROP_OLDEST \<or> policy q = RAISE \<Longrightarrow> 0 < max_size q \<Longrightarrow> qsize q \<le> max_size q \<Longrightarrow>
   counter_balance (snd (put q x t e)) - qsize (snd (put q x t e)) = counter_balance q - qsize q"
  by (auto simp add: put_def drop_oldest_evict_def drop_oldest_insert_def put_nowait_raw_def full_def qsize_def counter_balance_def Let_def
           split: BackpressurePolicy.splits list.splits prod.splits)

lemma put_balance_unbounded:
  "max_size q \<le> 0 \<Longrightarrow>
   counter_balance (snd (put q x t e)) - qsize (snd (put q x t e)) = counter_balance q - qsize q"
  by (auto simp add: put_def drop_oldest_evict_def drop_oldest_insert_def put_nowait_raw_def full_def qsize_def counter_balance_def Let_def
           split: BackpressurePolicy.splits list.splits prod.splits)

lemma put_flow_rejecting:
  "policy q = DROP_NEWEST \<or> policy q = BLOCK \<Longrightarrow>
   total_enqueued (snd (put q x t e)) - total_dequeued (snd (put q x t e)) - qsize (snd (put q x t e))
     = total_enqueued q - total_dequeued q - qsize q \<and>
   total_dropped (snd (put q x t e))
     = total_dropped q + (if rejected (fst (put q x t e)) then 1 else 0)"
  by (auto simp add: put_def drop_oldest_evict_def drop_oldest_insert_def put_nowait_raw_def full_def qsize_def Let_def
           split: BackpressurePolicy.splits list.splits prod.splits)

lemma get_balance:
  "counter_balance (snd (get q n e)) - qsize (snd (get q n e)) = counter_balance q - qsize q \<and>
   total_enqueued (snd (get q n e)) - total_dequeued (snd (get q n e)) - qsize (snd (get q n e))
     = total_enqueued q - total_dequeued q - qsize q \<and>
   total_dropped (snd (get q n e)) = total_dropped q"
  by (simp add: get_def record_dequeue_def qsize_def counter_balance_def Let_def
           split: list.splits prod.splits)

lemma get_nowait_balance:
  "counter_balance (snd (get_nowait q n)) - qsize (snd (get_nowait q n)) = counter_balance q - qsize q \<and>
   total_enqueued (snd (get_nowait q n)) - total_dequeued (snd (get_nowait q n)) - qsize (snd (get_nowait q n))
     = total_enqueued q - total_dequeued q - qsize q \<and>
   total_dropped (snd (get_nowait q n)) = total_dropped q"
  by (simp add: get_nowait_def record_dequeue_def qsize_def counter_balance_def Let_def
           split: list.splits prod.splits)


lemma step_balance_evicting:
  assumes "policy q = DROP_OLDEST \<or> policy q = RAISE"
      and "0 < max_size q \<longrightarrow> qsize q \<le> max_size q"
  shows "counter_balance (queue_step q c) - qsize (queue_step q c) = counter_balance q - qsize q"
proof (cases c)
  case (Put x t e)
  show ?thesis
  proof (cases "0 < max_size q")
    case True
    then show ?thesis using Put assms put_balance_evicting [of q x t e] by simp
  next
    case False
    then show ?thesis using Put put_balance_unbounded [of q x t e] by simp
  qed
next
  case (Get n e)
  then show ?thesis using get_balance [of q n e] by simp
next
  case (Get_nowait n)
  then show ?thesis using get_nowait_balance [of q n] by simp
qed

lemma step_flow_rejecting:
  assumes "policy q = DROP_NEWEST \<or> policy q = BLOCK"
  shows "total_enqueued (queue_step q c) - total_dequeued (queue_step q c) - qsize (queue_step q c)
           = total_enqueued q - total_dequeued q - qsize q"
proof (cases c)
  case (Put x t e)
  then show ?thesis using put_flow_rejecting [OF assms, of x t e] by simp
next
  case (Get n e)
  then show ?thesis using get_balance [of q n e] by simp
next
  case (Get_nowait n)
  then show ?thesis using get_nowait_balance [of q n] by simp
qed

lemma run_fields:
  "max_size (queue_run q cs) = max_size q \<and> policy (queue_run q cs) = policy q"
  by (induction cs arbitrary: q) (simp_all add: step_fields)

lemma run_bounded:
  "0 < max_size q \<Longrightarrow> qsize q \<le> max_size q \<Longrightarrow> qsize (queue_run q cs) \<le> max_size q"
proof (induction cs arbitrary: q)
  case Nil
  then show ?case by simp
next
  case (Cons c cs)
  have "qsize (queue_step q c) \<le> max_size (queue_step q c)"
    using step_bounded [OF Cons.prems] by (simp add: step_fields)
  moreover have "0 < max_size (queue_step q c)" using Cons.prems by (simp add: step_fields)
  ultimately have "qsize (queue_run (queue_step q c) cs) \<le> max_size (queue_step q c)"
    by (rule Cons.IH [rotated])
  then show ?case by (simp add: step_fields)
qed

lemma run_balance_evicting:
  "policy q = DROP_OLDEST \<or> policy q = RAISE \<Longrightarrow>
   0 < max_size q \<longrightarrow> qsize q \<le> max_size q \<Longrightarrow>
   counter_balance (queue_run q cs) - qsize (queue_run q cs) = counter_balance q - qsize q"
proof (induction cs arbitrary: q)
  case Nil
  then show ?case by simp
next
  case (Cons c cs)
  let ?q = "queue_step q c"
  have p: "policy ?q = DROP_OLDEST \<or> policy ?q = RAISE" using Cons.prems by (simp add: step_fields)
  have b: "0 < max_size ?q \<longrightarrow> qsize ?q \<le> max_size ?q"
    using Cons.prems(2) step_bounded [of q c] by (simp add: step_fields)
  have "counter_balance (queue_run ?q cs) - qsize (queue_run ?q cs) = counter_balance ?q - qsize ?q"
    by (rule Cons.IH [OF p b])
  then show ?case using step_balance_evicting [OF Cons.prems, of c] by simp
qed

lemma run_flow_rejecting:
  "policy q = DROP_NEWEST \<or> policy q = BLOCK \<Longrightarrow>
   total_enqueued (queue_run q cs) - total_dequeued (queue_run q cs) - qsize (queue_run q cs)
     = total_enqueued q - total_dequeued q - qsize q"
proof (induction cs arbitrary: q)
  case Nil
  then show ?case by simp
next
  case (Cons c cs)
  let ?q = "queue_step q c"
  have p: "policy ?q = DROP_NEWEST \<or> policy ?q = BLOCK" using Cons.prems by (simp add: step_fields)
  show ?case using Cons.IH [OF p] step_flow_rejecting [OF Cons.prems, of c] by simp
qed

lemma run_dropped_rejecting:
  "policy q = DROP_NEWEST \<or> policy q = BLOCK \<Longrightarrow>
   total_dropped (queue_run q cs) = total_dropped q + rejected_puts q cs"
proof (induction cs arbitrary: q)
  case Nil
  then show ?case by simp
next
  case (Cons c cs)
  let ?q = "queue_step q c"
  have p: "policy ?q = DROP_NEWEST \<or> policy ?q = BLOCK" using Cons.prems by (simp add: step_fields)
  note ih = Cons.IH [OF p]
  show ?case
  proof (cases c)
    case (Put x t e)
    then show ?thesis using ih put_flow_rejecting [OF Cons.prems, of x t e] by simp
  next
    case (Get n e)
    then show ?thesis using ih get_balance [of q n e] by simp
  next
    case (Get_nowait n)
    then show ?thesis using ih get_nowait_balance [of q n] by simp
  qed
qed

text \<open>
  C9 (amended). For a queue as its constructor builds it and every sequence of \<open>put\<close>,
  \<open>get\<close> and \<open>get_nowait\<close> calls that do not overlap (each call ends before the next
  begins): with a positive \<open>max_size\<close> the size never exceeds it; under \<open>DROP_OLDEST\<close>
  and \<open>RAISE\<close>, \<open>total_enqueued - total_dequeued - total_dropped\<close> equals the current
  size; under \<open>DROP_NEWEST\<close> and \<open>BLOCK\<close>, \<open>total_dropped\<close> is the number of puts that
  were rejected (they returned \<open>False\<close> or ended in the overflow callback's exception)
  and whose items were never enqueued, and there
  \<open>total_enqueued - total_dequeued\<close> equals the current size.
\<close>

theorem queue_counters:
  "(0 < m \<longrightarrow> qsize (queue_run (new_queue m pol cb) cs) \<le> m) \<and>
   (pol = DROP_OLDEST \<or> pol = RAISE \<longrightarrow>
      counter_balance (queue_run (new_queue m pol cb) cs) = qsize (queue_run (new_queue m pol cb) cs)) \<and>
   (pol = DROP_NEWEST \<or> pol = BLOCK \<longrightarrow>
      total_enqueued (queue_run (new_queue m pol cb) cs) - total_dequeued (queue_run (new_queue m pol cb) cs)
        = qsize (queue_run (new_queue m pol cb) cs) \<and>
      total_dropped (queue_run (new_queue m pol cb) cs) = rejected_puts (new_queue m pol cb) cs)"
proof -
  let ?q = "new_queue m pol cb"
  have f: "max_size ?q = m" "policy ?q = pol" "qsize ?q = 0" "counter_balance ?q = 0"
          "total_enqueued ?q = 0" "total_dequeued ?q = 0" "total_dropped ?q = 0"
    by (simp_all add: new_queue_def qsize_def counter_balance_def)
  have a: "0 < m \<longrightarrow> qsize (queue_run ?q cs) \<le> m"
    using run_bounded [of ?q cs] f by simp
  have b: "pol = DROP_OLDEST \<or> pol = RAISE \<longrightarrow> counter_balance (queue_run ?q cs) = qsize (queue_run ?q cs)"
    using run_balance_evicting [of ?q cs] f by simp
  have c: "pol = DROP_NEWEST \<or> pol = BLOCK \<longrightarrow>
      total_enqueued (queue_run ?q cs) - total_dequeued (queue_run ?q cs) = qsize (queue_run ?q cs)"
    using run_flow_rejecting [of ?q cs] f by simp
  have d: "pol = DROP_NEWEST \<or> pol = BLOCK \<longrightarrow>
      total_dropped (queue_run ?q cs) = rejected_puts ?q cs"
    using run_dropped_rejecting [of ?q cs] f by simp
  show ?thesis using a b c d by blast
qed

lemma burst_value:
  "queue_run (new_queue 3 DROP_OLDEST None) burst_calls =
     \<lparr>queue = [(3, 102), (4, 103), (5, 104)], max_size = 3, policy = DROP_OLDEST,
      overflow_callback = None, total_enqueued = 5, total_dequeued = 0, total_dropped = 2,
      wait_times = [], max_wait_time_ns = 0\<rparr>"
  by (simp add: burst_calls_def new_queue_def put_def drop_oldest_evict_def
        drop_oldest_insert_def full_def qsize_def put_nowait_raw_def callback_returns_def)

lemma drop_newest_value:
  "queue_run (new_queue 1 DROP_NEWEST None) reject_calls =
     \<lparr>queue = [(1, 100)], max_size = 1, policy = DROP_NEWEST,
      overflow_callback = None, total_enqueued = 1, total_dequeued = 0, total_dropped = 1,
      wait_times = [], max_wait_time_ns = 0\<rparr>"
  by (simp add: reject_calls_def new_queue_def put_def full_def qsize_def put_nowait_raw_def
        callback_returns_def)

lemma rejected_value: "rejected_puts (new_queue 1 DROP_NEWEST None) reject_calls = 1"
  by (simp add: reject_calls_def new_queue_def put_def full_def qsize_def put_nowait_raw_def
        callback_returns_def)

theorem queue_counters_witness:
  "(0::int) < 3 \<and> map fst (queue (queue_run (new_queue 3 DROP_OLDEST None) burst_calls)) = [3, 4, 5] \<and>
   total_dropped (queue_run (new_queue 3 DROP_OLDEST None) burst_calls) = 2 \<and>
   qsize (queue_run (new_queue 3 DROP_OLDEST None) burst_calls) \<le> 3 \<and>
   counter_balance (queue_run (new_queue 3 DROP_OLDEST None) burst_calls)
     = qsize (queue_run (new_queue 3 DROP_OLDEST None) burst_calls) \<and>
   rejected_puts (new_queue 1 DROP_NEWEST None) reject_calls = 1 \<and>
   total_dropped (queue_run (new_queue 1 DROP_NEWEST None) reject_calls)
     = rejected_puts (new_queue 1 DROP_NEWEST None) reject_calls \<and>
   total_enqueued (queue_run (new_queue 1 DROP_NEWEST None) reject_calls)
     - total_dequeued (queue_run (new_queue 1 DROP_NEWEST None) reject_calls)
     = qsize (queue_run (new_queue 1 DROP_NEWEST None) reject_calls)"
  using queue_counters [of 3 DROP_OLDEST None burst_calls]
        queue_counters [of 1 DROP_NEWEST None reject_calls]
  by (simp add: burst_value drop_newest_value rejected_value)

text \<open>
  C9 (as stated) fails. Under \<open>DROP_NEWEST\<close> a rejected item is counted in
  \<open>total_dropped\<close> although it was never enqueued: capacity 1 and two puts give
  \<open>1 - 0 - 1 = 0\<close> with one item queued. A queue built with \<open>max_size = 0\<close> is never
  full, so its size exceeds that capacity after one put. And under \<open>DROP_OLDEST\<close> with
  an overflow callback, a put of another producer that runs while the first put awaits the
  callback refills the freed slot; the first put then counts its own item as dropped as
  well: \<open>2 - 0 - 2 = 0\<close> with one item queued.
\<close>

theorem queue_conservation_counterexample:
  "counter_balance drop_newest_queue = 0 \<and> qsize drop_newest_queue = 1 \<and>
   max_size drop_newest_queue = 1 \<and>
   qsize (queue_run (new_queue 0 DROP_OLDEST None) [Put (1::int) 100 False]) = 1 \<and>
   total_enqueued overlapped_queue = 2 \<and> total_dequeued overlapped_queue = 0 \<and>
   total_dropped overlapped_queue = 2 \<and> counter_balance overlapped_queue = 0 \<and>
   qsize overlapped_queue = 1"
  by (simp add: drop_newest_queue_def reject_calls_def overlapped_queue_def new_queue_def put_def
        drop_oldest_evict_def drop_oldest_insert_def full_def qsize_def
        counter_balance_def put_nowait_raw_def callback_returns_def Let_def)
section \<open>Properties of the order executor\<close>


lemma kalshi_places_append [simp]:
  "kalshi_places (xs @ ys) = kalshi_places xs @ kalshi_places ys"
  by (induction xs rule: kalshi_places.induct) simp_all

lemma ibkr_places_append [simp]:
  "ibkr_places (xs @ ys) = ibkr_places xs @ ibkr_places ys"
  by (induction xs rule: ibkr_places.induct) simp_all

lemma hedge_filled_last: "hedge_filled tr \<longleftrightarrow> tr \<noteq> [] \<and> polled_filled (last tr)"
  by (cases tr rule: rev_cases) (simp_all add: hedge_filled_def)

lemma kalshi_poll_places:
  "kalshi_places (snd (kalshi_poll gw n tr ord)) = kalshi_places tr \<and>
   ibkr_places (snd (kalshi_poll gw n tr ord)) = ibkr_places tr"
  by (induction n arbitrary: tr ord)
     (auto simp add: call_kalshi_def Let_def split: sum.splits prod.splits)

lemma kalshi_poll_filled:
  "lr_filled (fst (kalshi_poll gw n tr ord)) \<Longrightarrow>
     (\<exists>q. lr_fill_quantity (fst (kalshi_poll gw n tr ord)) = Some q \<and> 0 < q)"
  by (induction n arbitrary: tr ord)
     (auto simp add: call_kalshi_def Let_def is_filled_def split: sum.splits prod.splits if_splits)

lemma execute_kalshi_places:
  "kalshi_places (snd (execute_kalshi gw tr ticker sd q p)) =
     kalshi_places tr @ [K_place ticker (if sd = ''YES'' then YES else NO) q (py_int (p * 100))] \<and>
   ibkr_places (snd (execute_kalshi gw tr ticker sd q p)) = ibkr_places tr"
  by (simp add: execute_kalshi_def call_kalshi_def Let_def kalshi_poll_places
           split: sum.splits prod.splits)

lemma execute_ibkr_places:
  "kalshi_places (snd (execute_ibkr gw tr c q p)) = kalshi_places tr \<and>
   ibkr_places (snd (execute_ibkr gw tr c q p)) = ibkr_places tr @ [I_place c q p]"
  by (simp add: execute_ibkr_def call_ibkr_def Let_def split: sum.splits prod.splits)

lemma rollback_kalshi_places:
  "kalshi_places (snd (rollback_kalshi gw tr ticker sd q)) =
     kalshi_places tr @ [K_place ticker (if sd = ''YES'' then NO else YES) q 99] \<and>
   ibkr_places (snd (rollback_kalshi gw tr ticker sd q)) = ibkr_places tr"
  by (simp add: rollback_kalshi_def call_kalshi_def Let_def split: sum.splits prod.splits)

lemma rollback_kalshi_details:
  "rb_success (fst (rollback_kalshi gw tr ticker sd q)) = hedge_filled (snd (rollback_kalshi gw tr ticker sd q)) \<and>
   (\<not> hedge_filled (snd (rollback_kalshi gw tr ticker sd q)) \<longrightarrow>
      suffix manual_marker (rb_details (fst (rollback_kalshi gw tr ticker sd q))))"
  by (simp add: rollback_kalshi_def call_kalshi_def Let_def suffix_def hedge_filled_last
           split: sum.splits prod.splits)


lemma commit_success_fields:
  "commit_success cm opp res a b = (res', cm') \<Longrightarrow>
   ibkr_filled res' = ibkr_filled res \<and> kalshi_filled res' = kalshi_filled res \<and>
   rolled_back res' = rolled_back res \<and> kalshi_fill_quantity res' = kalshi_fill_quantity res"
  by (auto simp add: commit_success_def Let_def split: prod.splits option.splits)

lemma reserve_cases:
  "reserve a x = (ok, a') \<Longrightarrow>
     (ok \<longrightarrow> cash_available a' = cash_available a - x \<and> cash_reserved a' = cash_reserved a + x
            \<and> positions a' = positions a \<and> exchange a' = exchange a) \<and>
     (\<not> ok \<longrightarrow> a' = a)"
  by (auto simp add: reserve_def split: if_splits)

lemma execute_rollback_branch:
  assumes ex: "execute gw symbols cm opp quantity = (res, cm', tr)"
      and mp: "symbols (opp_symbol opp) = Some mapping"
      and kf: "kalshi_filled res" and nf: "\<not> ibkr_filled res"
      and ek: "execute_kalshi gw [] (kalshi_ticker mapping) (kalshi_side opp) quantity
                 (kalshi_price opp) = (kres, tr1)"
      and ei: "execute_ibkr gw tr1 (leg_b_con_id mapping opp) quantity (ibkr_price opp)
                 = (ires, tr2)"
      and rk: "rollback_kalshi gw tr2 (kalshi_ticker mapping) (kalshi_side opp)
                 (case lr_fill_quantity kres of None \<Rightarrow> 0 | Some n \<Rightarrow> n) = (rb, tr3)"
  shows "fst (reserve (kalshi cm) (kalshi_price opp * of_int quantity)) \<and>
         fst (reserve (ibkr cm) (ibkr_price opp * of_int quantity)) \<and>
         cm' = cm\<lparr>kalshi := snd (reserve (kalshi cm) (kalshi_price opp * of_int quantity)),
                  ibkr := release (snd (reserve (ibkr cm) (ibkr_price opp * of_int quantity)))
                            (ibkr_price opp * of_int quantity)\<rparr> \<and>
         rolled_back res \<and> \<not> success res \<and> tr = tr3 \<and>
         lr_filled kres \<and> \<not> lr_filled ires \<and>
         kalshi_fill_quantity res = (case lr_fill_quantity kres of None \<Rightarrow> 0 | Some n \<Rightarrow> n) \<and>
         rollback_details res = Some (rb_details rb)"
proof -
  obtain ok1 k1 where r1: "reserve (kalshi cm) (kalshi_price opp * of_int quantity) = (ok1, k1)"
    by force
  obtain ok2 i1 where r2: "reserve (ibkr cm) (ibkr_price opp * of_int quantity) = (ok2, i1)"
    by force
  show ?thesis
    using ex mp kf nf r1 r2 ek ei rk
    by (auto simp add: execute_def Let_def initial_result_def leg_b_con_id_def
             split: if_splits bool.splits prod.splits dest: commit_success_fields)
qed



lemma execute_rolled_back_only_in_rollback:
  assumes ex: "execute gw symbols cm opp quantity = (res, cm', tr)" and rb: "rolled_back res"
  shows "kalshi_filled res \<and> \<not> ibkr_filled res \<and> symbols (opp_symbol opp) \<noteq> None"
  using ex rb
  by (auto simp add: execute_def Let_def initial_result_def
           split: if_splits bool.splits prod.splits option.splits dest: commit_success_fields)

text \<open>
  The rollback branch. For every execution in which the Kalshi leg fills and the IBKR leg
  does not (a non-fill terminal state, a timeout or an exception of the submit call all give
  an unfilled leg result): the IBKR reservation is released (the cash fields of the IBKR
  account are as before the execution); exactly two orders are placed on Kalshi, the leg
  itself and one hedge on the opposite side, for the filled Kalshi quantity, at 99 cents;
  the result has \<open>rolled_back\<close> set and carries rollback details, which end with the
  manual-intervention marker whenever the poll of the hedge did not satisfy \<open>is_filled\<close>.
\<close>

lemma rollback_on_leg_b_failure:
  assumes ex: "execute gw symbols cm opp quantity = (res, cm', tr)"
      and mp: "symbols (opp_symbol opp) = Some mapping"
      and kf: "kalshi_filled res" and nf: "\<not> ibkr_filled res"
  shows "cash_available (ibkr cm') = cash_available (ibkr cm) \<and>
         cash_reserved (ibkr cm') = cash_reserved (ibkr cm) \<and>
         kalshi_places tr =
           [K_place (kalshi_ticker mapping) (if kalshi_side opp = ''YES'' then YES else NO)
              quantity (py_int (kalshi_price opp * 100)),
            K_place (kalshi_ticker mapping) (if kalshi_side opp = ''YES'' then NO else YES)
              (kalshi_fill_quantity res) 99] \<and>
         rolled_back res \<and> \<not> success res \<and>
         (\<exists>d. rollback_details res = Some d \<and>
              (\<not> hedge_filled tr \<longrightarrow> suffix manual_marker d))"
proof -
  obtain kres tr1 where ek:
    "execute_kalshi gw [] (kalshi_ticker mapping) (kalshi_side opp) quantity
       (kalshi_price opp) = (kres, tr1)" by force
  obtain ires tr2 where ei:
    "execute_ibkr gw tr1 (leg_b_con_id mapping opp) quantity (ibkr_price opp) = (ires, tr2)"
    by force
  obtain rb tr3 where rk:
    "rollback_kalshi gw tr2 (kalshi_ticker mapping) (kalshi_side opp)
       (case lr_fill_quantity kres of None \<Rightarrow> 0 | Some n \<Rightarrow> n) = (rb, tr3)" by force
  note br = execute_rollback_branch [OF ex mp kf nf ek ei rk]
  obtain ok2 i1 where r2: "reserve (ibkr cm) (ibkr_price opp * of_int quantity) = (ok2, i1)"
    by force
  have ok2: "ok2" using br r2 by simp
  have cash: "cash_available (ibkr cm') = cash_available (ibkr cm) \<and>
              cash_reserved (ibkr cm') = cash_reserved (ibkr cm)"
    using br r2 reserve_cases [OF r2] ok2 by (simp add: release_def)
  have p1: "kalshi_places tr1 =
      [K_place (kalshi_ticker mapping) (if kalshi_side opp = ''YES'' then YES else NO)
         quantity (py_int (kalshi_price opp * 100))]"
    using execute_kalshi_places [of gw "[]" "kalshi_ticker mapping" "kalshi_side opp" quantity
            "kalshi_price opp"] ek by simp
  have p2: "kalshi_places tr2 = kalshi_places tr1"
    using execute_ibkr_places [of gw tr1 "leg_b_con_id mapping opp" quantity "ibkr_price opp"] ei
    by simp
  have p3: "kalshi_places tr3 = kalshi_places tr2 @
      [K_place (kalshi_ticker mapping) (if kalshi_side opp = ''YES'' then NO else YES)
         (kalshi_fill_quantity res) 99]"
    using rollback_kalshi_places [of gw tr2 "kalshi_ticker mapping" "kalshi_side opp"
            "case lr_fill_quantity kres of None \<Rightarrow> 0 | Some n \<Rightarrow> n"] rk br
    by simp
  have d: "\<not> hedge_filled tr3 \<longrightarrow> suffix manual_marker (rb_details rb)"
    using rollback_kalshi_details [of gw tr2 "kalshi_ticker mapping" "kalshi_side opp"
            "case lr_fill_quantity kres of None \<Rightarrow> 0 | Some n \<Rightarrow> n"] rk
    by simp
  show ?thesis using cash p1 p2 p3 d br by simp
qed

lemma leg_b_rejected_run:
  "kalshi_filled (fst (execute leg_b_rejected evt_symbols funded evt_opp 5)) \<and>
   \<not> ibkr_filled (fst (execute leg_b_rejected evt_symbols funded evt_opp 5)) \<and>
   rolled_back (fst (execute leg_b_rejected evt_symbols funded evt_opp 5)) \<and>
   kalshi_fill_quantity (fst (execute leg_b_rejected evt_symbols funded evt_opp 5)) = 5 \<and>
   rollback_details (fst (execute leg_b_rejected evt_symbols funded evt_opp 5)) =
     Some ''Hedge order resting - MANUAL INTERVENTION REQUIRED'' \<and>
   evt_symbols (opp_symbol evt_opp) = Some evt_mapping \<and>
   kalshi_ticker evt_mapping = ''KX-EVT'' \<and> kalshi_side evt_opp = ''YES'' \<and>
   py_int (kalshi_price evt_opp * 100) = 40 \<and>
   kalshi_price evt_opp * of_int 5 = 2 \<and>
   cash_available (kalshi funded) = 100 \<and> cash_reserved (kalshi funded) = 0 \<and>
   cash_available (ibkr funded) = 100 \<and> cash_reserved (ibkr funded) = 0"
  by code_simp

lemma rollback_on_leg_b_failure_example:
  "kalshi_filled (fst (execute leg_b_rejected evt_symbols funded evt_opp 5)) \<and>
   \<not> ibkr_filled (fst (execute leg_b_rejected evt_symbols funded evt_opp 5)) \<and>
   cash_available (ibkr (fst (snd (execute leg_b_rejected evt_symbols funded evt_opp 5)))) = 100 \<and>
   cash_reserved (ibkr (fst (snd (execute leg_b_rejected evt_symbols funded evt_opp 5)))) = 0 \<and>
   kalshi_places (snd (snd (execute leg_b_rejected evt_symbols funded evt_opp 5))) =
     [K_place ''KX-EVT'' YES 5 40, K_place ''KX-EVT'' NO 5 99] \<and>
   rolled_back (fst (execute leg_b_rejected evt_symbols funded evt_opp 5))"
proof -
  obtain res cm' tr where ex: "execute leg_b_rejected evt_symbols funded evt_opp 5 = (res, cm', tr)"
    using prod_cases3 by blast
  have run: "kalshi_filled res" "\<not> ibkr_filled res"
            "evt_symbols (opp_symbol evt_opp) = Some evt_mapping"
    using leg_b_rejected_run ex by simp_all
  show ?thesis
    using rollback_on_leg_b_failure [OF ex run(3) run(1) run(2)] leg_b_rejected_run ex
    by simp
qed

text \<open>
  C2. The release of the IBKR reservation, the single hedge order and \<open>rolled_back\<close> are
  as stated, but a hedge that did not fill is not always reported with the
  manual-intervention marker: \<open>_rollback_kalshi\<close> decides by \<open>is_filled\<close>, which holds of
  any order with nothing remaining and a positive fill count. A hedge for 5 contracts that
  Kalshi reports cancelled with 2 filled is reported as \<open>Hedged with 5 no @ $0.99\<close>,
  with no marker.
\<close>

theorem hedge_cut_short_reported_hedged:
  "kalshi_filled (fst (execute hedge_cut_short evt_symbols funded evt_opp 5)) \<and>
   \<not> ibkr_filled (fst (execute hedge_cut_short evt_symbols funded evt_opp 5)) \<and>
   rolled_back (fst (execute hedge_cut_short evt_symbols funded evt_opp 5)) \<and>
   kalshi_places (snd (snd (execute hedge_cut_short evt_symbols funded evt_opp 5))) =
     [K_place ''KX-EVT'' YES 5 40, K_place ''KX-EVT'' NO 5 99] \<and>
   last (snd (snd (execute hedge_cut_short evt_symbols funded evt_opp 5))) =
     Kalshi_call (K_get ''H1'')
       (Inr \<lparr>order_id = ''H1'', status = CANCELED, initial_count = 5,
              remaining_count = 0, fill_count = 2, price_cents = 99\<rparr>) \<and>
   rollback_details (fst (execute hedge_cut_short evt_symbols funded evt_opp 5)) =
     Some ''Hedged with 5 no @ $0.99'' \<and>
   \<not> suffix manual_marker ''Hedged with 5 no @ $0.99''"
  by code_simp

text \<open>
  C10. For every execution that ends rolled back, only the IBKR reservation is released:
  the Kalshi account has \<open>kalshi_price * quantity\<close> more reserved and as much less
  available than before the execution, and no position is added on either venue.
\<close>

theorem kalshi_reservation_kept_on_rollback:
  assumes ex: "execute gw symbols cm opp quantity = (res, cm', tr)" and rb: "rolled_back res"
  shows "cash_reserved (kalshi cm') = cash_reserved (kalshi cm) + kalshi_price opp * of_int quantity \<and>
         cash_available (kalshi cm') = cash_available (kalshi cm) - kalshi_price opp * of_int quantity \<and>
         positions (kalshi cm') = positions (kalshi cm) \<and>
         cash_reserved (ibkr cm') = cash_reserved (ibkr cm) \<and>
         cash_available (ibkr cm') = cash_available (ibkr cm) \<and>
         positions (ibkr cm') = positions (ibkr cm)"
proof -
  from execute_rolled_back_only_in_rollback [OF ex rb]
  obtain mapping where mp: "symbols (opp_symbol opp) = Some mapping"
    and kf: "kalshi_filled res" and nf: "\<not> ibkr_filled res" by auto
  obtain kres tr1 where ek:
    "execute_kalshi gw [] (kalshi_ticker mapping) (kalshi_side opp) quantity
       (kalshi_price opp) = (kres, tr1)" by force
  obtain ires tr2 where ei:
    "execute_ibkr gw tr1 (leg_b_con_id mapping opp) quantity (ibkr_price opp) = (ires, tr2)"
    by force
  obtain rbk tr3 where rk:
    "rollback_kalshi gw tr2 (kalshi_ticker mapping) (kalshi_side opp)
       (case lr_fill_quantity kres of None \<Rightarrow> 0 | Some n \<Rightarrow> n) = (rbk, tr3)" by force
  note br = execute_rollback_branch [OF ex mp kf nf ek ei rk]
  obtain ok1 k1 where r1: "reserve (kalshi cm) (kalshi_price opp * of_int quantity) = (ok1, k1)"
    by force
  obtain ok2 i1 where r2: "reserve (ibkr cm) (ibkr_price opp * of_int quantity) = (ok2, i1)"
    by force
  have "ok1" "ok2" using br r1 r2 by simp_all
  then show ?thesis
    using br r1 r2 reserve_cases [OF r1] reserve_cases [OF r2] by (simp add: release_def)
qed

theorem kalshi_reservation_kept_on_rollback_witness:
  "rolled_back (fst (execute leg_b_rejected evt_symbols funded evt_opp 5)) \<and>
   cash_reserved (kalshi (fst (snd (execute leg_b_rejected evt_symbols funded evt_opp 5)))) = 2 \<and>
   cash_available (kalshi (fst (snd (execute leg_b_rejected evt_symbols funded evt_opp 5)))) = 98"
proof -
  obtain res cm' tr where ex: "execute leg_b_rejected evt_symbols funded evt_opp 5 = (res, cm', tr)"
    using prod_cases3 by blast
  have rb: "rolled_back res" using leg_b_rejected_run ex by simp
  show ?thesis
    using kalshi_reservation_kept_on_rollback [OF ex rb] leg_b_rejected_run ex by simp
qed

text \<open>
  What decides whether a leg counts as filled: a Kalshi leg reported filled has a positive
  filled quantity; the IBKR leg is filled exactly when its order was placed and the wait
  ended with status \<open>Filled\<close>. When the Kalshi leg is not filled, \<open>execute\<close> releases
  both reservations and returns a failure without a call to IBKR.
\<close>

lemma execute_kalshi_filled_positive:
  "lr_filled (fst (execute_kalshi gw tr ticker sd q p)) \<Longrightarrow>
     (\<exists>n. lr_fill_quantity (fst (execute_kalshi gw tr ticker sd q p)) = Some n \<and> 0 < n)"
  by (auto simp add: execute_kalshi_def call_kalshi_def Let_def
           split: sum.splits prod.splits split del: if_split intro!: kalshi_poll_filled)

lemma execute_ibkr_filled_iff:
  "lr_filled (fst (execute_ibkr gw tr c q p)) \<longleftrightarrow>
     (\<exists>ord0 ord. ibkr_reply gw (length tr) (I_place c q p) = Inr ord0 \<and>
        ibkr_reply gw (Suc (length tr)) (I_wait (ib_order_id ord0)) = Inr ord \<and>
        ib_is_filled ord)"
  by (auto simp add: execute_ibkr_def call_ibkr_def Let_def ibkr_failure_def ibkr_not_filled_def
           split: sum.splits prod.splits)

lemma execute_leg_a_not_filled:
  assumes ex: "execute gw symbols cm opp quantity = (res, cm', tr)"
      and mp: "symbols (opp_symbol opp) = Some mapping"
      and r1: "fst (reserve (kalshi cm) (kalshi_price opp * of_int quantity))"
      and r2: "fst (reserve (ibkr cm) (ibkr_price opp * of_int quantity))"
      and nf: "\<not> lr_filled (fst (execute_kalshi gw [] (kalshi_ticker mapping) (kalshi_side opp)
                 quantity (kalshi_price opp)))"
  shows "\<not> success res \<and> \<not> rolled_back res \<and> ibkr_places tr = [] \<and>
         cash_available (kalshi cm') = cash_available (kalshi cm) \<and>
         cash_reserved (kalshi cm') = cash_reserved (kalshi cm) \<and>
         cash_available (ibkr cm') = cash_available (ibkr cm) \<and>
         cash_reserved (ibkr cm') = cash_reserved (ibkr cm)"
proof -
  obtain ok1 k1 where a: "reserve (kalshi cm) (kalshi_price opp * of_int quantity) = (ok1, k1)"
    by force
  obtain ok2 i1 where b: "reserve (ibkr cm) (ibkr_price opp * of_int quantity) = (ok2, i1)"
    by force
  obtain kres tr1 where ek:
    "execute_kalshi gw [] (kalshi_ticker mapping) (kalshi_side opp) quantity
       (kalshi_price opp) = (kres, tr1)" by force
  have ip: "ibkr_places tr1 = []"
    using execute_kalshi_places [of gw "[]" "kalshi_ticker mapping" "kalshi_side opp" quantity
            "kalshi_price opp"] ek by simp
  have ok: "ok1" "ok2" using r1 r2 a b by simp_all
  have nk: "\<not> lr_filled kres" using nf ek by simp
  have e: "res = (initial_result opp quantity)\<lparr>ibkr_con_id := leg_b_con_id mapping opp,
              res_total_cost := kalshi_price opp * of_int quantity + ibkr_price opp * of_int quantity,
              kalshi_order_id := lr_order_id kres, kalshi_filled := lr_filled kres,
              kalshi_fill_quantity := (case lr_fill_quantity kres of None \<Rightarrow> 0 | Some n \<Rightarrow> n),
              kalshi_fill_price := lr_fill_price kres,
              error := Some (Leg_error (case lr_error kres of
                         None \<Rightarrow> ''Kalshi order not filled'' | Some e \<Rightarrow> e))\<rparr> \<and>
           cm' = cm\<lparr>kalshi := release k1 (kalshi_price opp * of_int quantity),
                    ibkr := release i1 (ibkr_price opp * of_int quantity)\<rparr> \<and> tr = tr1"
    using ex mp a b ok ek nk
    by (simp add: execute_def Let_def leg_b_con_id_def)
  show ?thesis
    using e ip nk reserve_cases [OF a] reserve_cases [OF b] ok
    by (simp add: initial_result_def release_def)
qed

text \<open>
  C1. The IBKR order is submitted for the requested quantity, not for the filled Kalshi
  quantity. An order of 5 that Kalshi reports with nothing remaining and 3 filled counts as
  filled (\<open>is_filled\<close>), the result records 3 filled contracts, and the IBKR order is
  placed for 5.
\<close>

theorem leg_b_quantity_at_short_fill:
  "kalshi_filled (fst (execute leg_a_short_fill evt_symbols funded evt_opp 5)) \<and>
   kalshi_fill_quantity (fst (execute leg_a_short_fill evt_symbols funded evt_opp 5)) = 3 \<and>
   ibkr_places (snd (snd (execute leg_a_short_fill evt_symbols funded evt_opp 5))) =
     [I_place 2002 5 (43 / 100)] \<and>
   success (fst (execute leg_a_short_fill evt_symbols funded evt_opp 5))"
  by code_simp

section \<open>Properties of the opportunity gate\<close>



text \<open>
  C5. For every opportunity reaching \<open>_handle_opportunity\<close>: if for its symbol no Kalshi
  tick is cached (no cache entry, or an entry never updated), or the cached one was received
  more than \<open>max_stale_seconds\<close> before the check, or the same holds of the IBKR partial
  tick, then the opportunity is rejected: no task is created, \<open>opportunities_stale\<close> grows
  by one, and apart from the two counters the monitor is as before (the sizing is not
  reached, so it cannot raise either).
\<close>

theorem staleness_gate:
  assumes "kalshi_cache m (opp_symbol opp) = None \<or>
           (\<exists>c. kalshi_cache m (opp_symbol opp) = Some c \<and>
                (cache_tick c = None \<or> cache_timestamp_ns c = 0 \<or>
                 of_int (now_k - cache_timestamp_ns c)
                   > max_stale_seconds (execution_config m) * 1000000000)) \<or>
           ibkr_partials m (opp_symbol opp) = None \<or>
           (\<exists>p. ibkr_partials m (opp_symbol opp) = Some p \<and>
                (p_timestamp_ns p = 0 \<or>
                 of_int (now_i - p_timestamp_ns p)
                   > max_stale_seconds (execution_config m) * 1000000000))"
  shows "handle_opportunity m opp now_k now_i =
           (No_task, m\<lparr>opportunities_detected := opportunities_detected m + 1,
                        opportunities_stale := opportunities_stale m + 1\<rparr>)"
  using assms
  by (auto simp add: handle_opportunity_def Let_def cache_is_stale_def partial_is_stale_def
           split: option.splits)

theorem staleness_gate_witness:
  "kalshi_cache stale_monitor (opp_symbol evt_opp) =
     Some \<lparr>cache_tick = Some (mk_tick KALSHI ''EVT'' (40 / 100) (60 / 100)),
           cache_timestamp_ns = 10000000000\<rparr> \<and>
   rat_of_int (20000000000 - 10000000000)
     > max_stale_seconds (execution_config stale_monitor) * 1000000000 \<and>
   fst (handle_opportunity stale_monitor evt_opp 20000000000 20000000000) = No_task \<and>
   opportunities_stale (snd (handle_opportunity stale_monitor evt_opp 20000000000 20000000000)) = 1 \<and>
   opportunities_valid (snd (handle_opportunity stale_monitor evt_opp 20000000000 20000000000)) = 0"
proof -
  have c: "kalshi_cache stale_monitor (opp_symbol evt_opp) =
     Some \<lparr>cache_tick = Some (mk_tick KALSHI ''EVT'' (40 / 100) (60 / 100)),
           cache_timestamp_ns = 10000000000\<rparr>"
    by (simp add: stale_monitor_def evt_opp_def)
  have a: "rat_of_int (20000000000 - 10000000000)
     > max_stale_seconds (execution_config stale_monitor) * 1000000000"
    by (simp add: stale_monitor_def)
  have v: "opportunities_stale stale_monitor = 0" "opportunities_valid stale_monitor = 0"
    by (simp_all add: stale_monitor_def)
  have "handle_opportunity stale_monitor evt_opp 20000000000 20000000000 =
           (No_task, stale_monitor\<lparr>opportunities_detected := opportunities_detected stale_monitor + 1,
                        opportunities_stale := opportunities_stale stale_monitor + 1\<rparr>)"
    by (rule staleness_gate) (use c a in simp)
  then show ?thesis using c a v by simp
qed

end
